theory Spec2Isabelle
  imports Main
begin

section \<open>JavaScript values, exceptions and the logger\<close>

text \<open>
  The values that \<^verbatim>\<open>JSON.parse\<close> produces, together with \<^verbatim>\<open>undefined\<close>
  (what reading an absent property gives). The decoder never computes with a number, so a
  number is carried as an integer. An object is the list of its key/value pairs, each key once.
\<close>

datatype jsvalue =
    JUndefined
  | JNull
  | JBool bool
  | JNum int
  | JStr string
  | JArr "jsvalue list"
  | JObj "(string \<times> jsvalue) list"

text \<open>
  The exceptions that can be raised while a frame is handled: \<^verbatim>\<open>JSON.parse\<close> on text that
  is not JSON, a property read on \<^verbatim>\<open>null\<close>/\<^verbatim>\<open>undefined\<close> or a call of something that is
  not a function, an exception raised by a subscribed callback, and the EventEmitter's
  exception for an \<^verbatim>\<open>error\<close> event that nobody listens to.
\<close>

datatype js_error = SyntaxError | TypeError | CallbackRaised | UnhandledErrorEvent

datatype level = Debug | Info | Warn | Err

type_synonym logline = "level \<times> string"

text \<open>
  \<^verbatim>\<open>v.k\<close> for the property names the code reads (\<^verbatim>\<open>event\<close>, \<^verbatim>\<open>data\<close>, \<^verbatim>\<open>content\<close>), which no
  prototype defines: a TypeError on \<^verbatim>\<open>null\<close> and \<^verbatim>\<open>undefined\<close>, the field of an object,
  \<^verbatim>\<open>undefined\<close> on everything else.
\<close>

fun prop_of :: "jsvalue \<Rightarrow> string \<Rightarrow> jsvalue" where
  "prop_of (JObj kvs) k = (case map_of kvs k of None \<Rightarrow> JUndefined | Some v \<Rightarrow> v)"
| "prop_of _ k = JUndefined"

definition get_prop :: "jsvalue \<Rightarrow> string \<Rightarrow> js_error + jsvalue" where
  "get_prop v k = (if v = JUndefined \<or> v = JNull then Inl TypeError else Inr (prop_of v k))"

section \<open>The protocol decoder: parseMessage (src/core/messageHandling.ts)\<close>

text \<open>
  \<^verbatim>\<open>parseJSON\<close> is imported from \<^verbatim>\<open>../utils/utils\<close>, which is not among the sources. It
  is a parameter of the decoder: a function from the value it is given (the frame text, then the
  envelope's \<^verbatim>\<open>data\<close> field, whatever that is) to the decoded value or the exception raised.
\<close>

type_synonym parser = "jsvalue \<Rightarrow> js_error + jsvalue"

text \<open>The object \<^verbatim>\<open>{ type, data }\<close> that parseMessage returns.\<close>

record parsed =
  msg_type :: string
  msg_data :: jsvalue

text \<open>The tags of the chat events are \<^verbatim>\<open>App\Events\<close> followed by a backslash and a name.\<close>

definition appEvent :: "string \<Rightarrow> string" where
  "appEvent name = ''App'' @ [CHR 0x5C] @ ''Events'' @ [CHR 0x5C] @ name"

text \<open>
  The body shared by every \<^verbatim>\<open>case\<close> of the switch: the logger calls of the case, then
  \<^verbatim>\<open>parseJSON(messageEventJSON.data)\<close>, then the returned object. The log lines are kept
  also when parseJSON raises.
\<close>

definition decodeAs ::
  "parser \<Rightarrow> string \<Rightarrow> logline list \<Rightarrow> jsvalue \<Rightarrow> logline list \<times> (js_error + parsed option)" where
  "decodeAs parseJSON ty logs env =
     (logs, case parseJSON (prop_of env ''data'') of
              Inl e \<Rightarrow> Inl e
            | Inr d \<Rightarrow> Inr (Some \<lparr>msg_type = ty, msg_data = d\<rparr>))"

text \<open>The \<^verbatim>\<open>try\<close> block of parseMessage: the log lines written and the value returned or the
  exception raised. The switch compares with \<^verbatim>\<open>===\<close>, so a case is taken only by a string.\<close>

definition parseMessage_try ::
  "parser \<Rightarrow> string \<Rightarrow> logline list \<times> (js_error + parsed option)" where
  "parseMessage_try parseJSON message =
     (case parseJSON (JStr message) of
        Inl e \<Rightarrow> ([], Inl e)
      | Inr messageEventJSON \<Rightarrow>
          (case get_prop messageEventJSON ''event'' of
             Inl e \<Rightarrow> ([], Inl e)
           | Inr ev \<Rightarrow>
               if ev = JStr (appEvent ''ChatMessageEvent'') then
                 decodeAs parseJSON ''ChatMessage'' [] messageEventJSON
               else if ev = JStr (appEvent ''SubscriptionEvent'') then
                 decodeAs parseJSON ''Subscription'' [] messageEventJSON
               else if ev = JStr (appEvent ''GiftedSubscriptionsEvent'') then
                 decodeAs parseJSON ''GiftedSubscriptions'' [] messageEventJSON
               else if ev = JStr (appEvent ''StreamHostEvent'') then
                 decodeAs parseJSON ''StreamHost'' [] messageEventJSON
               else if ev = JStr (appEvent ''MessageDeletedEvent'') then
                 decodeAs parseJSON ''MessageDeleted'' [] messageEventJSON
               else if ev = JStr (appEvent ''UserBannedEvent'') then
                 decodeAs parseJSON ''UserBanned'' [] messageEventJSON
               else if ev = JStr (appEvent ''UserUnbannedEvent'') then
                 decodeAs parseJSON ''UserUnbanned'' [] messageEventJSON
               else if ev = JStr (appEvent ''PinnedMessageCreatedEvent'') then
                 decodeAs parseJSON ''PinnedMessageCreated'' [] messageEventJSON
               else if ev = JStr (appEvent ''PinnedMessageDeletedEvent'') then
                 decodeAs parseJSON ''PinnedMessageDeleted'' [] messageEventJSON
               else if ev = JStr (appEvent ''PollUpdateEvent'') then
                 decodeAs parseJSON ''PollUpdate'' [] messageEventJSON
               else if ev = JStr (appEvent ''PollDeleteEvent'') then
                 decodeAs parseJSON ''PollDelete'' [] messageEventJSON
               else if ev = JStr ''pusher:connection_established'' then
                 decodeAs parseJSON ''PusherConnectionEstablished''
                   [(Debug, ''Pusher connection established'')] messageEventJSON
               else if ev = JStr ''pusher_internal:subscription_succeeded'' then
                 decodeAs parseJSON ''PusherSubscriptionSucceeded''
                   [(Debug, ''Pusher subscription succeeded'')] messageEventJSON
               else if ev = JStr ''pusher:pong'' then
                 decodeAs parseJSON ''PusherPong''
                   [(Debug, ''Pusher pong received'')] messageEventJSON
               else if ev = JStr ''pusher:ping'' then
                 decodeAs parseJSON ''PusherPing''
                   [(Debug, ''Pusher ping received'')] messageEventJSON
               else if ev = JStr ''pusher:error'' then
                 decodeAs parseJSON ''PusherError''
                   [(Warn, ''Pusher error:'')] messageEventJSON
               else ([(Debug, ''Unknown event type:'')], Inr None)))"

text \<open>
  parseMessage: the \<^verbatim>\<open>catch\<close> logs at error level and returns \<^verbatim>\<open>null\<close>. The result is a
  sum so that raising would be \<open>Inl\<close>; \<open>None\<close> is \<^verbatim>\<open>null\<close>.
\<close>

definition parseMessage ::
  "parser \<Rightarrow> string \<Rightarrow> logline list \<times> (js_error + parsed option)" where
  "parseMessage parseJSON message =
     (case parseMessage_try parseJSON message of
        (logs, Inl e) \<Rightarrow> (logs @ [(Err, ''Error parsing message:'')], Inr None)
      | (logs, Inr r) \<Rightarrow> (logs, Inr r))"

text \<open>
  The fixed table of tags, read off the case labels of the switch in the source text. Each tag
  is written out as it stands on the wire (the label of the chat message, a string literal
  with escaped backslashes in the source, is \<^verbatim>\<open>App\<close>, one backslash, \<^verbatim>\<open>Events\<close>, one
  backslash, \<^verbatim>\<open>ChatMessageEvent\<close>), without the function \<open>appEvent\<close> that the decoder above
  uses; with it stands the \<^verbatim>\<open>type\<close> of the decoded event.
\<close>

definition eventTable :: "(string \<times> string) list" where
  "eventTable =
    [(''App'' @ [CHR 0x5C] @ ''Events'' @ [CHR 0x5C] @ ''ChatMessageEvent'', ''ChatMessage''),
     (''App'' @ [CHR 0x5C] @ ''Events'' @ [CHR 0x5C] @ ''SubscriptionEvent'', ''Subscription''),
     (''App'' @ [CHR 0x5C] @ ''Events'' @ [CHR 0x5C] @ ''GiftedSubscriptionsEvent'', ''GiftedSubscriptions''),
     (''App'' @ [CHR 0x5C] @ ''Events'' @ [CHR 0x5C] @ ''StreamHostEvent'', ''StreamHost''),
     (''App'' @ [CHR 0x5C] @ ''Events'' @ [CHR 0x5C] @ ''MessageDeletedEvent'', ''MessageDeleted''),
     (''App'' @ [CHR 0x5C] @ ''Events'' @ [CHR 0x5C] @ ''UserBannedEvent'', ''UserBanned''),
     (''App'' @ [CHR 0x5C] @ ''Events'' @ [CHR 0x5C] @ ''UserUnbannedEvent'', ''UserUnbanned''),
     (''App'' @ [CHR 0x5C] @ ''Events'' @ [CHR 0x5C] @ ''PinnedMessageCreatedEvent'', ''PinnedMessageCreated''),
     (''App'' @ [CHR 0x5C] @ ''Events'' @ [CHR 0x5C] @ ''PinnedMessageDeletedEvent'', ''PinnedMessageDeleted''),
     (''App'' @ [CHR 0x5C] @ ''Events'' @ [CHR 0x5C] @ ''PollUpdateEvent'', ''PollUpdate''),
     (''App'' @ [CHR 0x5C] @ ''Events'' @ [CHR 0x5C] @ ''PollDeleteEvent'', ''PollDelete''),
     (''pusher:connection_established'', ''PusherConnectionEstablished''),
     (''pusher_internal:subscription_succeeded'', ''PusherSubscriptionSucceeded''),
     (''pusher:pong'', ''PusherPong''),
     (''pusher:ping'', ''PusherPing''),
     (''pusher:error'', ''PusherError'')]"

text \<open>
  The log line that the case of a protocol-level tag writes before it decodes the data
  (the cases of the chat events write none).
\<close>

definition tagLogs :: "string \<Rightarrow> logline list" where
  "tagLogs tag =
     (if tag = ''pusher:connection_established'' then [(Debug, ''Pusher connection established'')]
      else if tag = ''pusher_internal:subscription_succeeded'' then
        [(Debug, ''Pusher subscription succeeded'')]
      else if tag = ''pusher:pong'' then [(Debug, ''Pusher pong received'')]
      else if tag = ''pusher:ping'' then [(Debug, ''Pusher ping received'')]
      else if tag = ''pusher:error'' then [(Warn, ''Pusher error:'')]
      else [])"

text \<open>
  A frame is a well-formed envelope for a parser when its text decodes to an object that has
  an \<^verbatim>\<open>event\<close> field; it is malformed otherwise (not JSON, not an object, or no
  \<^verbatim>\<open>event\<close>).
\<close>

definition malformedEnvelope :: "parser \<Rightarrow> string \<Rightarrow> bool" where
  "malformedEnvelope parseJSON message =
     (case parseJSON (JStr message) of
        Inl e \<Rightarrow> True
      | Inr (JObj kvs) \<Rightarrow> map_of kvs ''event'' = None
      | Inr _ \<Rightarrow> True)"

text \<open>
  Modelled from the spec: parseJSON (\<^verbatim>\<open>src/utils/utils.ts\<close> is not among the sources), the
  decoder of JSON text, tabulated on the texts that are used as concrete inputs below; it
  rejects every other text.
\<close>

definition pongFrame :: string where
  \<open>pongFrame = ''{"event":"pusher:pong","data":"{}"}''\<close>

definition futureFrame :: string where
  \<open>futureFrame = ''{"event":"some:future_event","data":"{}"}''\<close>

definition noEventFrame :: string where
  \<open>noEventFrame = ''{"data":"{}"}''\<close>

definition subscriptionFrame :: string where
  \<open>subscriptionFrame =
     ''{"event":"App'' @ [CHR 0x5C, CHR 0x5C] @ ''Events'' @ [CHR 0x5C, CHR 0x5C] @
     ''SubscriptionEvent","data":"{}"}''\<close>

definition badDataFrame :: string where
  \<open>badDataFrame = ''{"event":"pusher:pong","data":"oops"}''\<close>

definition sampleTexts :: "(jsvalue \<times> (js_error + jsvalue)) list" where
  "sampleTexts =
    [(JStr pongFrame, Inr (JObj [(''event'', JStr ''pusher:pong''), (''data'', JStr ''{}'')])),
     (JStr subscriptionFrame,
        Inr (JObj [(''event'', JStr (''App'' @ [CHR 0x5C] @ ''Events'' @ [CHR 0x5C] @ ''SubscriptionEvent'')),
                   (''data'', JStr ''{}'')])),
     (JStr badDataFrame, Inr (JObj [(''event'', JStr ''pusher:pong''), (''data'', JStr ''oops'')])),
     (JStr futureFrame, Inr (JObj [(''event'', JStr ''some:future_event''), (''data'', JStr ''{}'')])),
     (JStr noEventFrame, Inr (JObj [(''data'', JStr ''{}'')])),
     (JStr ''{}'', Inr (JObj [])),
     (JStr ''[1]'', Inr (JArr [JNum 1])),
     (JStr ''null'', Inr JNull),
     (JStr ''not json'', Inl SyntaxError)]"

definition sampleParseJSON :: parser where
  "sampleParseJSON v = (case map_of sampleTexts v of Some r \<Rightarrow> r | None \<Rightarrow> Inl SyntaxError)"

section \<open>The client's types (src/types/client.ts)\<close>

datatype ConnectionState = DISCONNECTED | CONNECTING | CONNECTED | RECONNECTING | ERROR

datatype ErrorType = CONNECTION | WEBSOCKET | VALIDATION

text \<open>
  A KickError: its type, its message and the connection state in its context. The channel name
  in the context is the client's own, and the wrapped original error is not inspected anywhere.
\<close>

record KickError =
  err_type :: ErrorType
  err_message :: string
  err_state :: ConnectionState

text \<open>
  ConnectionOptions: every field is optional, \<open>None\<close> is \<^verbatim>\<open>undefined\<close>. Intervals are
  whole numbers of milliseconds.
\<close>

record ConnectionOptions =
  autoReconnect :: "bool option"
  maxReconnectAttempts :: "nat option"
  reconnectInterval :: "nat option"
  maxReconnectInterval :: "nat option"
  heartbeatInterval :: "nat option"

text \<open>
  What the \<^verbatim>\<open>onConnectionStateChange\<close> callback does when it is called with a state. It runs
  in the middle of the client's handlers (\<^verbatim>\<open>setConnectionState\<close> calls it synchronously), and
  the handler goes on after it: a call of \<^verbatim>\<open>disconnect()\<close> from the callback changes what
  the rest of the handler finds (the mark of disconnection, the state, the timers, the
  socket). The callback returns at once, or it calls \<^verbatim>\<open>disconnect()\<close> and then returns.
  Its other calls on the client (\<^verbatim>\<open>connect()\<close>, the registry) are events of their own.
\<close>

datatype reaction = Returns | Disconnects

text \<open>
  The transport's configuration (\<^verbatim>\<open>mergedOptions.websocket\<close>: URL, headers, options of
  \<^verbatim>\<open>ws\<close>), as far as the client depends on it: whether \<^verbatim>\<open>new WebSocket\<close> in
  \<^verbatim>\<open>createWebSocket\<close> accepts it, or raises (as \<^verbatim>\<open>ws\<close> does on a URL or options it
  cannot use).
\<close>

datatype WebSocketConfig = Accepted | Refused

text \<open>
  The options the client reads: whether emotes are rewritten, whether \<^verbatim>\<open>onError\<close> is given,
  the \<^verbatim>\<open>onConnectionStateChange\<close> callback if it is given (\<open>None\<close> is \<^verbatim>\<open>undefined\<close>), the
  transport's configuration and the connection options. The logger is always present after
  \<^verbatim>\<open>resolveLogger\<close>; its calls are recorded in the trace of effects.
\<close>

record ClientOptions =
  plainEmote :: bool
  onError :: bool
  onConnectionStateChange :: "(ConnectionState \<Rightarrow> reaction) option"
  websocket :: WebSocketConfig
  connection :: ConnectionOptions

definition defaultConnectionOptions :: ConnectionOptions where
  "defaultConnectionOptions =
     \<lparr>autoReconnect = Some True, maxReconnectAttempts = Some 10, reconnectInterval = Some 1000,
      maxReconnectInterval = Some 30000, heartbeatInterval = Some 30000\<rparr>"

text \<open>
  \<^verbatim>\<open>{ ...defaultConnectionOptions, ...options.connection }\<close>: a field the caller gives
  replaces the default. In the caller's options \<open>None\<close> is an absent property. (A property
  given as \<^verbatim>\<open>undefined\<close> would replace the default by \<^verbatim>\<open>undefined\<close>; the client below
  takes its merged options as they are, so that case is among the merged options it ranges
  over.)
\<close>

definition orDefault :: "'a option \<Rightarrow> 'a option \<Rightarrow> 'a option" where
  "orDefault given dflt = (case given of None \<Rightarrow> dflt | Some v \<Rightarrow> Some v)"

definition mergeConnection :: "ConnectionOptions \<Rightarrow> ConnectionOptions" where
  "mergeConnection c =
     \<lparr>autoReconnect = orDefault (autoReconnect c) (autoReconnect defaultConnectionOptions),
      maxReconnectAttempts =
        orDefault (maxReconnectAttempts c) (maxReconnectAttempts defaultConnectionOptions),
      reconnectInterval =
        orDefault (reconnectInterval c) (reconnectInterval defaultConnectionOptions),
      maxReconnectInterval =
        orDefault (maxReconnectInterval c) (maxReconnectInterval defaultConnectionOptions),
      heartbeatInterval =
        orDefault (heartbeatInterval c) (heartbeatInterval defaultConnectionOptions)\<rparr>"

text \<open>JavaScript's truthiness of an optional number, and \<^verbatim>\<open>x || d\<close>.\<close>

definition truthy :: "nat option \<Rightarrow> bool" where
  "truthy x = (case x of None \<Rightarrow> False | Some n \<Rightarrow> n \<noteq> 0)"

definition orElse :: "nat option \<Rightarrow> nat \<Rightarrow> nat" where
  "orElse x d = (case x of None \<Rightarrow> d | Some n \<Rightarrow> if n = 0 then d else n)"

section \<open>The client's state (src/client/client.ts)\<close>

text \<open>
  A subscribed callback: its identity (callbacks are compared by identity when removed) and
  whether it raises when it is invoked. What a subscribed callback or \<^verbatim>\<open>onError\<close> itself
  calls on the client (the example calls \<^verbatim>\<open>disconnect()\<close> from a \<^verbatim>\<open>ChatMessage\<close>
  callback) is an event of its own, after the handler that invoked the callback. The
  configured callbacks and the logger return normally.
\<close>

datatype listener = Listener nat bool

fun raises :: "listener \<Rightarrow> bool" where
  "raises (Listener i r) = r"

text \<open>
  What the EventEmitter holds for an event name: a function registered with \<^verbatim>\<open>on\<close>, or
  the wrapper that \<^verbatim>\<open>once\<close> made around the client's \<^verbatim>\<open>wrappedListener\<close> (each wrapper
  has its own identity).
\<close>

datatype registration = On listener | Once nat listener

datatype payload =
    NoArgs
  | Channel "(nat \<times> string) option"
  | Failure KickError
  | Data jsvalue

datatype ReadyState = WS_CONNECTING | WS_OPEN | WS_CLOSING | WS_CLOSED

text \<open>Who awaits the promise of a \<^verbatim>\<open>connect()\<close> call: the application, or the callback of
  the reconnection timer, whose \<^verbatim>\<open>catch\<close> counts the attempt and schedules the next.\<close>

datatype caller = User | Scheduler

text \<open>
  A WebSocket made by \<^verbatim>\<open>createWebSocket\<close>: its \<^verbatim>\<open>readyState\<close>, whether the handlers
  registered on it are still there (\<^verbatim>\<open>removeAllListeners\<close> removes them), and the promise of
  the \<^verbatim>\<open>connect()\<close> call that made it: who awaits it and whether it is settled.
\<close>

record websocket =
  readyState :: ReadyState
  handlers :: bool
  awaited_by :: caller
  settled :: bool

text \<open>
  What the client does to the outside, in order: logger calls (level and message, without
  the interpolated values), the two configured callbacks, the subscribed callbacks invoked,
  the calls of \<^verbatim>\<open>connect()\<close>, the channel lookup, the sockets made and used, the timers set
  and cleared, the promises settled, and the exceptions that leave a handler uncaught.
\<close>

datatype effect =
    Logged level string
  | StateChanged ConnectionState
  | ErrorReported KickError
  | Invoked string listener payload
  | ConnectCalled caller
  | LookupStarted
  | SocketCreated nat
  | Sent nat
  | Pinged nat
  | CloseCalled nat
  | TimeoutSet nat nat
  | TimeoutCleared nat
  | IntervalSet nat nat
  | IntervalCleared nat
  | Resolved caller
  | Rejected caller KickError
  | Uncaught js_error

text \<open>
  The variables of \<^verbatim>\<open>createClient\<close>'s closure, under their names, followed by the runtime
  objects they refer to: every socket made so far (\<open>socket\<close> holds an index into them), the
  armed timeouts and intervals (by handle), the next fresh handle, the \<^verbatim>\<open>connect()\<close> calls
  suspended at \<^verbatim>\<open>await fetch\<close>, the number of rejected promises whose \<^verbatim>\<open>catch\<close> in the
  timer callback has not run yet, and the trace of effects.
\<close>

record client =
  channelName :: string
  mergedOptions :: ClientOptions
  socket :: "nat option"
  channelInfo :: "(nat \<times> string) option"
  connectionState :: ConnectionState
  reconnectAttempts :: nat
  reconnectTimer :: "nat option"
  heartbeatTimer :: "nat option"
  isDisconnected :: bool
  listeners :: "string \<Rightarrow> listener set"
  onceListeners :: "string \<Rightarrow> listener set"
  emitter :: "string \<Rightarrow> registration list"
  sockets :: "websocket list"
  timeouts :: "nat list"
  intervals :: "nat list"
  nextHandle :: nat
  lookups :: "caller list"
  rejections :: nat
  effects :: "effect list"

definition initial :: "string \<Rightarrow> ClientOptions \<Rightarrow> client" where
  "initial name merged =
     \<lparr>channelName = name, mergedOptions = merged, socket = None, channelInfo = None,
      connectionState = DISCONNECTED, reconnectAttempts = 0, reconnectTimer = None,
      heartbeatTimer = None, isDisconnected = False,
      listeners = (\<lambda>ev. {}), onceListeners = (\<lambda>ev. {}), emitter = (\<lambda>ev. []),
      sockets = [], timeouts = [], intervals = [], nextHandle = 0, lookups = [],
      rejections = 0, effects = []\<rparr>"

text \<open>createClient. The deprecated \<^verbatim>\<open>readOnly\<close> option, which makes createClient call
  \<^verbatim>\<open>connect()\<close> at once and log its rejection, is not among the options: such a client
  is one whose first event is \<open>Connect\<close>.\<close>

definition createClient :: "string \<Rightarrow> ClientOptions \<Rightarrow> client" where
  "createClient name options =
     initial name (options\<lparr>connection := mergeConnection (connection options)\<rparr>)"

definition emits :: "effect \<Rightarrow> client \<Rightarrow> client" where
  "emits e s = s\<lparr>effects := effects s @ [e]\<rparr>"

definition logger :: "level \<Rightarrow> string \<Rightarrow> client \<Rightarrow> client" where
  "logger lvl msg s = emits (Logged lvl msg) s"

definition createError :: "ErrorType \<Rightarrow> string \<Rightarrow> client \<Rightarrow> KickError" where
  "createError ty msg s = \<lparr>err_type = ty, err_message = msg, err_state = connectionState s\<rparr>"

definition handleError :: "KickError \<Rightarrow> client \<Rightarrow> client" where
  "handleError err s =
     (let s1 = logger Err ''KickClient Error'' s
      in if onError (mergedOptions s1) then emits (ErrorReported err) s1 else s1)"

section \<open>The listener registry and the EventEmitter\<close>

text \<open>
  EventEmitter's \<^verbatim>\<open>removeListener\<close> removes the most recently added registration that is
  the given function. A \<^verbatim>\<open>once\<close> wrapper holds the client's \<^verbatim>\<open>wrappedListener\<close>, not the
  caller's function, so it is never the one removed. The emitter's own events
  (\<^verbatim>\<open>newListener\<close>, \<^verbatim>\<open>removeListener\<close>) are assumed to have no subscriber.
\<close>

definition remove_last :: "'a \<Rightarrow> 'a list \<Rightarrow> 'a list" where
  "remove_last x xs = rev (remove1 x (rev xs))"

definition addListener :: "string \<Rightarrow> listener \<Rightarrow> bool \<Rightarrow> client \<Rightarrow> client" where
  "addListener ev l once s =
     (if once then
        s\<lparr>onceListeners := (onceListeners s)(ev := insert l (onceListeners s ev)),
          emitter := (emitter s)(ev := emitter s ev @ [Once (nextHandle s) l]),
          nextHandle := Suc (nextHandle s)\<rparr>
      else
        s\<lparr>listeners := (listeners s)(ev := insert l (listeners s ev)),
          emitter := (emitter s)(ev := emitter s ev @ [On l])\<rparr>)"

definition removeListener :: "string \<Rightarrow> listener \<Rightarrow> client \<Rightarrow> client" where
  "removeListener ev l s =
     s\<lparr>listeners := (listeners s)(ev := listeners s ev - {l}),
       onceListeners := (onceListeners s)(ev := onceListeners s ev - {l}),
       emitter := (emitter s)(ev := remove_last (On l) (emitter s ev))\<rparr>"

text \<open>\<^verbatim>\<open>if (event)\<close>: the empty string counts as no event name.\<close>

definition removeAllListeners :: "string option \<Rightarrow> client \<Rightarrow> client" where
  "removeAllListeners event s =
     (case event of
        Some ev \<Rightarrow>
          if ev \<noteq> [] then
            s\<lparr>listeners := (listeners s)(ev := {}),
              onceListeners := (onceListeners s)(ev := {}),
              emitter := (emitter s)(ev := [])\<rparr>
          else s\<lparr>listeners := (\<lambda>ev. {}), onceListeners := (\<lambda>ev. {}), emitter := (\<lambda>ev. [])\<rparr>
      | None \<Rightarrow> s\<lparr>listeners := (\<lambda>ev. {}), onceListeners := (\<lambda>ev. {}), emitter := (\<lambda>ev. [])\<rparr>)"

text \<open>Calling a subscribed callback: the call is recorded; the callback returns or raises.\<close>

definition invoke :: "string \<Rightarrow> payload \<Rightarrow> listener \<Rightarrow> client \<Rightarrow> js_error option \<times> client" where
  "invoke ev p l s =
     (if raises l then Some CallbackRaised else None, emits (Invoked ev l p) s)"

text \<open>
  Calling one registration. A \<^verbatim>\<open>once\<close> wrapper first removes itself from the emitter, then
  runs \<^verbatim>\<open>wrappedListener\<close>: \<^verbatim>\<open>removeListener(event, listener)\<close>, then the callback.
\<close>

fun fire :: "string \<Rightarrow> payload \<Rightarrow> registration \<Rightarrow> client \<Rightarrow> js_error option \<times> client" where
  "fire ev p (On l) s = invoke ev p l s"
| "fire ev p (Once h l) s =
     invoke ev p l
       (removeListener ev l (s\<lparr>emitter := (emitter s)(ev := remove1 (Once h l) (emitter s ev))\<rparr>))"

text \<open>
  EventEmitter's \<^verbatim>\<open>emit\<close> calls the registrations of a copy of the list, in order of
  registration; an exception raised by one of them leaves \<^verbatim>\<open>emit\<close> at once.
\<close>

fun emit_loop :: "string \<Rightarrow> payload \<Rightarrow> registration list \<Rightarrow> client \<Rightarrow> js_error option \<times> client" where
  "emit_loop ev p [] s = (None, s)"
| "emit_loop ev p (r # rs) s =
     (case fire ev p r s of
        (Some e, s1) \<Rightarrow> (Some e, s1)
      | (None, s1) \<Rightarrow> emit_loop ev p rs s1)"

text \<open>An \<^verbatim>\<open>error\<close> event without any registration makes \<^verbatim>\<open>emit\<close> raise.\<close>

definition emit :: "string \<Rightarrow> payload \<Rightarrow> client \<Rightarrow> js_error option \<times> client" where
  "emit ev p s =
     (if emitter s ev = [] then (if ev = ''error'' then Some UnhandledErrorEvent else None, s)
      else emit_loop ev p (emitter s ev) s)"

section \<open>Heartbeat and reconnection scheduling\<close>

definition startHeartbeat :: "client \<Rightarrow> client" where
  "startHeartbeat s =
     (if \<not> truthy (heartbeatInterval (connection (mergedOptions s))) \<or> heartbeatTimer s \<noteq> None
      then s
      else
        emits (IntervalSet (nextHandle s) (orElse (heartbeatInterval (connection (mergedOptions s))) 0))
          (s\<lparr>heartbeatTimer := Some (nextHandle s),
             intervals := intervals s @ [nextHandle s],
             nextHandle := Suc (nextHandle s)\<rparr>))"

definition stopHeartbeat :: "client \<Rightarrow> client" where
  "stopHeartbeat s =
     (case heartbeatTimer s of
        None \<Rightarrow> s
      | Some h \<Rightarrow>
          emits (IntervalCleared h) (s\<lparr>intervals := removeAll h (intervals s), heartbeatTimer := None\<rparr>))"

text \<open>\<^verbatim>\<open>socket !== null && socket.readyState === WebSocket.OPEN\<close>.\<close>

definition isConnected :: "client \<Rightarrow> bool" where
  "isConnected s =
     (case socket s of
        None \<Rightarrow> False
      | Some sid \<Rightarrow> sid < length (sockets s) \<and> readyState (sockets s ! sid) = WS_OPEN)"

definition getConnectionState :: "client \<Rightarrow> ConnectionState" where
  "getConnectionState s = connectionState s"

definition getChannel :: "client \<Rightarrow> (nat \<times> string) option" where
  "getChannel s = channelInfo s"

text \<open>The callback of the heartbeat interval.\<close>

definition heartbeat :: "client \<Rightarrow> client" where
  "heartbeat s =
     (if isConnected s then
        (case socket s of
           None \<Rightarrow> s
         | Some sid \<Rightarrow> emits (Pinged sid) (logger Debug ''Sending heartbeat ping'' s))
      else s)"

text \<open>scheduleReconnect, up to the arming of the timer. The delay is
  \<^verbatim>\<open>Math.min(baseInterval * Math.pow(2, reconnectAttempts), maxInterval)\<close>.\<close>

definition reconnectDelay :: "ConnectionOptions \<Rightarrow> nat \<Rightarrow> nat" where
  "reconnectDelay c n =
     (let baseInterval = orElse (reconnectInterval c) 1000;
          maxInterval = orElse (maxReconnectInterval c) 30000
      in min (baseInterval * 2 ^ n) maxInterval)"

definition reconnectRefused :: "client \<Rightarrow> bool" where
  "reconnectRefused s =
     (autoReconnect (connection (mergedOptions s)) \<noteq> Some True \<or>
      reconnectAttempts s \<ge> orElse (maxReconnectAttempts (connection (mergedOptions s))) 10 \<or>
      isDisconnected s)"

definition scheduleReconnect :: "client \<Rightarrow> client" where
  "scheduleReconnect s =
     (if reconnectRefused s then logger Warn ''Reconnection disabled or max attempts reached'' s
      else
        (let exponentialDelay = reconnectDelay (connection (mergedOptions s)) (reconnectAttempts s);
             s1 = logger Info ''Scheduling reconnection attempt'' s
         in emits (TimeoutSet (nextHandle s1) exponentialDelay)
              (s1\<lparr>reconnectTimer := Some (nextHandle s1),
                  timeouts := timeouts s1 @ [nextHandle s1],
                  nextHandle := Suc (nextHandle s1)\<rparr>)))"

section \<open>setConnectionState and disconnect\<close>

text \<open>
  setConnectionState calls the \<^verbatim>\<open>onConnectionStateChange\<close> callback when the state changes,
  and the callback may call \<^verbatim>\<open>disconnect()\<close>, which itself calls setConnectionState: the two
  are defined together. The callback's call of \<^verbatim>\<open>disconnect()\<close> runs to its end inside
  setConnectionState, before the caller of setConnectionState goes on. The recursion ends
  because a nested \<^verbatim>\<open>disconnect()\<close> finds the state already \<^verbatim>\<open>DISCONNECTED\<close> or makes it so,
  and setConnectionState calls nothing when the state does not change.
\<close>

function setConnectionState :: "ConnectionState \<Rightarrow> client \<Rightarrow> client"
  and disconnect :: "client \<Rightarrow> client"
where
  "setConnectionState newState s =
     (if connectionState s \<noteq> newState then
        (let s1 = logger Info ''Connection state changed to:'' (s\<lparr>connectionState := newState\<rparr>)
         in case onConnectionStateChange (mergedOptions s1) of
              None \<Rightarrow> s1
            | Some onChange \<Rightarrow>
                (let s2 = emits (StateChanged newState) s1
                 in if onChange newState = Disconnects then disconnect s2 else s2))
      else s)"
| "disconnect s =
     (let s1 = logger Info ''Disconnecting client...'' s;
          s2 = setConnectionState DISCONNECTED (s1\<lparr>isDisconnected := True\<rparr>);
          s3 = (case reconnectTimer s2 of
                  None \<Rightarrow> s2
                | Some h \<Rightarrow>
                    emits (TimeoutCleared h)
                      (s2\<lparr>timeouts := removeAll h (timeouts s2), reconnectTimer := None\<rparr>));
          s4 = stopHeartbeat s3;
          s5 = (case socket s4 of
                  None \<Rightarrow> s4
                | Some sid \<Rightarrow>
                    if sid < length (sockets s4) then
                      (let ws = (sockets s4 ! sid)\<lparr>handlers := False\<rparr>
                       in if readyState ws = WS_OPEN then
                            emits (CloseCalled sid)
                              (s4\<lparr>sockets := (sockets s4)[sid := ws\<lparr>readyState := WS_CLOSING\<rparr>],
                                  socket := None\<rparr>)
                          else s4\<lparr>sockets := (sockets s4)[sid := ws], socket := None\<rparr>)
                    else s4\<lparr>socket := None\<rparr>);
          s6 = removeAllListeners None s5
      in logger Info ''Client disconnected and cleaned up''
           (s6\<lparr>channelInfo := None, reconnectAttempts := 0\<rparr>))"
  by pat_completeness auto

termination
  by (relation "measure (\<lambda>x. case x of
                   Inl (newState, s) \<Rightarrow>
                     (if connectionState s = newState then 0
                      else if newState = DISCONNECTED then 2 else 4)
                 | Inr s \<Rightarrow> (if connectionState s = DISCONNECTED then 1 else 3))")
     (auto simp add: logger_def emits_def)

declare setConnectionState.simps [simp del]
declare disconnect.simps [simp del]

section \<open>connect\<close>

text \<open>
  Rejecting the promise of a \<^verbatim>\<open>connect()\<close> call. When the timer callback awaits it, its
  \<^verbatim>\<open>catch\<close> block becomes due; it runs as a step of its own (\<open>rejectionCaught\<close> below).
\<close>

definition rejectPromise :: "caller \<Rightarrow> KickError \<Rightarrow> client \<Rightarrow> client" where
  "rejectPromise c err s =
     (let s1 = emits (Rejected c err) s
      in if c = Scheduler then s1\<lparr>rejections := Suc (rejections s1)\<rparr> else s1)"

text \<open>The \<^verbatim>\<open>catch\<close> of connect.\<close>

definition connectFailed :: "caller \<Rightarrow> client \<Rightarrow> client" where
  "connectFailed c s =
     (let s1 = setConnectionState ERROR s;
          kickError = createError CONNECTION ''Failed to create WebSocket connection'' s1
      in rejectPromise c kickError (handleError kickError s1))"

text \<open>connect, up to \<^verbatim>\<open>await fetch\<close>. The call itself is recorded in the trace.\<close>

definition connect :: "caller \<Rightarrow> client \<Rightarrow> client" where
  "connect c s =
     (let s0 = emits (ConnectCalled c) s
      in if isConnected s0 then
           emits (Resolved c) (logger Debug ''Already connected to WebSocket'' s0)
         else
           (let s1 = logger Info ''Connecting to channel:'' s0;
                s2 = setConnectionState CONNECTING s1
            in emits LookupStarted (s2\<lparr>lookups := lookups s2 @ [c]\<rparr>)))"

text \<open>
  What the channel lookup gives back: the request or the decoding of its body fails, the
  response is not ok, or the body is read and \<^verbatim>\<open>channelJson.chatroom?.id\<close> is a number or
  \<^verbatim>\<open>undefined\<close>.
\<close>

datatype lookup = LookupFailed | LookupNotOk | LookupBody "nat option"

text \<open>connect, from the \<^verbatim>\<open>await\<close> to the registration of the socket's handlers, for the
  \<open>k\<close>-th suspended call. \<^verbatim>\<open>!chatroomId\<close> holds for \<^verbatim>\<open>undefined\<close> and for 0.
  \<^verbatim>\<open>channelInfo\<close> is assigned before \<^verbatim>\<open>createWebSocket\<close> is called; when that raises, the
  \<^verbatim>\<open>catch\<close> of connect runs with \<^verbatim>\<open>channelInfo\<close> set and no socket made.\<close>

definition openSocket :: "caller \<Rightarrow> nat \<Rightarrow> client \<Rightarrow> client" where
  "openSocket c chatroomId s =
     (let s1 = logger Info ''Found chatroom ID'' s;
          s2 = s1\<lparr>channelInfo := Some (chatroomId, channelName s1)\<rparr>;
          sid = length (sockets s2)
      in if websocket (mergedOptions s2) = Refused then connectFailed c s2
         else
           emits (SocketCreated sid)
             (s2\<lparr>socket := Some sid,
                 sockets := sockets s2 @
                   [\<lparr>readyState = WS_CONNECTING, handlers = True, awaited_by = c, settled = False\<rparr>]\<rparr>))"

definition lookupDone :: "nat \<Rightarrow> lookup \<Rightarrow> client \<Rightarrow> client" where
  "lookupDone k res s =
     (if k < length (lookups s) then
        (let c = lookups s ! k;
             s1 = s\<lparr>lookups := take k (lookups s) @ drop (Suc k) (lookups s)\<rparr>
         in case res of
              LookupBody (Some chatroomId) \<Rightarrow>
                if chatroomId \<noteq> 0 then openSocket c chatroomId s1 else connectFailed c s1
            | _ \<Rightarrow> connectFailed c s1)
      else s)"

text \<open>\<^verbatim>\<open>resolve()\<close> and \<^verbatim>\<open>reject(kickError)\<close> in a socket's handlers: a settled promise
  stays as it is.\<close>

definition resolveSocket :: "nat \<Rightarrow> client \<Rightarrow> client" where
  "resolveSocket sid s =
     (if sid < length (sockets s) \<and> \<not> settled (sockets s ! sid) then
        emits (Resolved (awaited_by (sockets s ! sid)))
          (s\<lparr>sockets := (sockets s)[sid := (sockets s ! sid)\<lparr>settled := True\<rparr>]\<rparr>)
      else s)"

definition rejectSocket :: "nat \<Rightarrow> KickError \<Rightarrow> client \<Rightarrow> client" where
  "rejectSocket sid err s =
     (if sid < length (sockets s) \<and> \<not> settled (sockets s ! sid) then
        rejectPromise (awaited_by (sockets s ! sid)) err
          (s\<lparr>sockets := (sockets s)[sid := (sockets s ! sid)\<lparr>settled := True\<rparr>]\<rparr>)
      else s)"

section \<open>The handlers of a socket\<close>

text \<open>An exception that leaves a handler is uncaught; the handler stops there.\<close>

definition onOpen :: "nat \<Rightarrow> client \<Rightarrow> client" where
  "onOpen sid s =
     (if isDisconnected s then
        logger Debug ''Connection opened but client is disconnected, ignoring'' s
      else
        (let s1 = logger Info ''Connected to channel:'' s;
             s2 = setConnectionState CONNECTED s1;
             s3 = startHeartbeat (s2\<lparr>reconnectAttempts := 0\<rparr>)
         in case emit ''ready'' (Channel (channelInfo s3)) s3 of
              (Some e, s4) \<Rightarrow> emits (Uncaught e) s4
            | (None, s4) \<Rightarrow> resolveSocket sid s4))"

text \<open>
  The rewriting of emotes, \<^verbatim>\<open>content.replace(/\[emote:(\d+):(\w+)\]/g, ...)\<close>, which puts
  the emote's name in place of each match. \<open>matchEmote\<close> matches the pattern at the head
  of a text and gives the name and the length of the match; \<open>replaceEmotes\<close> scans from
  left to right, its first argument counting the characters of a match still to skip.
\<close>

definition isDigit :: "char \<Rightarrow> bool" where
  "isDigit c = (48 \<le> (of_char c :: nat) \<and> (of_char c :: nat) \<le> 57)"

definition isWordChar :: "char \<Rightarrow> bool" where
  "isWordChar c =
     (isDigit c \<or> (65 \<le> (of_char c :: nat) \<and> (of_char c :: nat) \<le> 90) \<or>
      (97 \<le> (of_char c :: nat) \<and> (of_char c :: nat) \<le> 122) \<or> c = CHR ''_'')"

definition matchEmote :: "string \<Rightarrow> (string \<times> nat) option" where
  "matchEmote s =
     (if take 7 s = ''[emote:'' then
        (let digits = takeWhile isDigit (drop 7 s);
             afterDigits = dropWhile isDigit (drop 7 s)
         in if digits \<noteq> [] \<and> take 1 afterDigits = '':'' then
              (let name = takeWhile isWordChar (drop 1 afterDigits);
                   afterName = dropWhile isWordChar (drop 1 afterDigits)
               in if name \<noteq> [] \<and> take 1 afterName = '']'' then
                    Some (name, 7 + length digits + 1 + length name + 1)
                  else None)
            else None)
      else None)"

fun replaceEmotes :: "nat \<Rightarrow> string \<Rightarrow> string" where
  "replaceEmotes k [] = []"
| "replaceEmotes (Suc k) (c # cs) = replaceEmotes k cs"
| "replaceEmotes 0 (c # cs) =
     (case matchEmote (c # cs) of
        Some (name, n) \<Rightarrow> name @ replaceEmotes (n - 1) cs
      | None \<Rightarrow> c # replaceEmotes 0 cs)"

fun assign :: "jsvalue \<Rightarrow> string \<Rightarrow> jsvalue \<Rightarrow> jsvalue" where
  "assign (JObj kvs) k v = JObj (map (\<lambda>(k', v'). if k' = k then (k', v) else (k', v')) kvs)"
| "assign d k v = d"

text \<open>\<^verbatim>\<open>messageData.content = messageData.content.replace(...)\<close>: a TypeError unless the
  payload has a string \<^verbatim>\<open>content\<close>.\<close>

definition rewriteContent :: "jsvalue \<Rightarrow> js_error + jsvalue" where
  "rewriteContent messageData =
     (case get_prop messageData ''content'' of
        Inl e \<Rightarrow> Inl e
      | Inr (JStr content) \<Rightarrow> Inr (assign messageData ''content'' (JStr (replaceEmotes 0 content)))
      | Inr _ \<Rightarrow> Inl TypeError)"

text \<open>The switch on \<^verbatim>\<open>parsedMessage.type\<close>: the exception raised inside it, if any.\<close>

definition route :: "parsed \<Rightarrow> client \<Rightarrow> js_error option \<times> client" where
  "route m s =
     (if msg_type m = ''ChatMessage'' then
        (if plainEmote (mergedOptions s) then
           (case rewriteContent (msg_data m) of
              Inl e \<Rightarrow> (Some e, s)
            | Inr d \<Rightarrow> emit ''ChatMessage'' (Data d) s)
         else emit ''ChatMessage'' (Data (msg_data m)) s)
      else if msg_type m = ''PusherConnectionEstablished'' then
        (None, logger Debug ''Pusher WebSocket connection established'' s)
      else if msg_type m = ''PusherSubscriptionSucceeded'' then
        (None, logger Debug ''Successfully subscribed to chat channel'' s)
      else if msg_type m = ''PusherPong'' then
        (None, logger Debug ''Received Pusher pong'' s)
      else if msg_type m = ''PusherPing'' then
        (None, logger Debug ''Received Pusher ping'' s)
      else if msg_type m = ''PusherError'' then
        (None, logger Err ''Pusher error:'' s)
      else emit (msg_type m) (Data (msg_data m)) s)"

definition onMessage :: "parser \<Rightarrow> string \<Rightarrow> client \<Rightarrow> client" where
  "onMessage parseJSON frame s =
     (if isDisconnected s then s
      else
        (case parseMessage parseJSON frame of
           (logs, r) \<Rightarrow>
             (let s1 = s\<lparr>effects := effects s @ map (\<lambda>(lvl, msg). Logged lvl msg) logs\<rparr>
              in case (case r of
                         Inl e \<Rightarrow> (Some e, s1)
                       | Inr None \<Rightarrow> (None, s1)
                       | Inr (Some parsedMessage) \<Rightarrow> route parsedMessage s1) of
                   (None, s2) \<Rightarrow> s2
                 | (Some e, s2) \<Rightarrow>
                     handleError
                       (createError WEBSOCKET ''Failed to parse WebSocket message'' s2) s2)))"

definition onClose :: "client \<Rightarrow> client" where
  "onClose s =
     (let s1 = stopHeartbeat s
      in if \<not> isDisconnected s1 then
           (let s2 = logger Warn ''Connection closed for channel:'' s1;
                s3 = setConnectionState DISCONNECTED s2
            in case emit ''disconnect'' NoArgs s3 of
                 (Some e, s4) \<Rightarrow> emits (Uncaught e) s4
               | (None, s4) \<Rightarrow> scheduleReconnect s4)
         else s1)"

definition onSocketError :: "nat \<Rightarrow> client \<Rightarrow> client" where
  "onSocketError sid s =
     (let s1 = stopHeartbeat s;
          s2 = setConnectionState ERROR s1;
          kickError = createError WEBSOCKET ''WebSocket connection error'' s2;
          s3 = handleError kickError s2
      in case emit ''error'' (Failure kickError) s3 of
           (Some e, s4) \<Rightarrow> emits (Uncaught e) s4
         | (None, s4) \<Rightarrow> rejectSocket sid kickError s4)"

definition onPong :: "client \<Rightarrow> client" where
  "onPong s = logger Debug ''Received heartbeat pong'' s"

section \<open>The events of the event loop\<close>

text \<open>The callback of the reconnection timer up to \<^verbatim>\<open>await connect()\<close>, and its
  \<^verbatim>\<open>catch\<close> block.\<close>

definition reconnectFired :: "client \<Rightarrow> client" where
  "reconnectFired s = connect Scheduler (s\<lparr>reconnectTimer := None\<rparr>)"

definition rejectionCaught :: "client \<Rightarrow> client" where
  "rejectionCaught s =
     (let s1 = logger Err ''Reconnection attempt failed'' s
      in scheduleReconnect (s1\<lparr>reconnectAttempts := Suc (reconnectAttempts s1)\<rparr>))"

text \<open>
  Everything that can happen to a client, one at a time, as on the event loop: the calls of
  the application, the completion of a channel lookup, what the transport reports for a
  socket, and the timers.
\<close>

datatype event =
    Connect
  | Start
  | Disconnect
  | Subscribe string listener
  | SubscribeOnce string listener
  | Unsubscribe string listener
  | UnsubscribeAll "string option"
  | LookupDone nat lookup
  | SocketOpen nat
  | SocketMessage nat string
  | SocketClosing nat
  | SocketError nat
  | SocketClose nat
  | SocketPong nat
  | ReconnectTimer nat
  | HeartbeatTimer nat
  | RejectionCaught

definition setReadyState :: "nat \<Rightarrow> ReadyState \<Rightarrow> client \<Rightarrow> client" where
  "setReadyState sid r s = s\<lparr>sockets := (sockets s)[sid := (sockets s ! sid)\<lparr>readyState := r\<rparr>]\<rparr>"

text \<open>
  One event. The transport follows the life of a \<^verbatim>\<open>ws\<close> socket: it opens from
  CONNECTING, delivers messages while OPEN or CLOSING, turns CLOSING when the closing
  handshake starts or an error is reported, and reports its close once. \<^verbatim>\<open>createWebSocket\<close>
  registers its own \<^verbatim>\<open>open\<close> handler first, which sends the subscription. A socket whose
  handlers were removed runs no code of the client; its \<^verbatim>\<open>error\<close> event is then unhandled.
  A timer fires only while armed; a timeout is disarmed by firing.
\<close>

definition step :: "parser \<Rightarrow> event \<Rightarrow> client \<Rightarrow> client" where
  "step parseJSON e s =
     (case e of
        Connect \<Rightarrow> connect User s
      | Start \<Rightarrow> connect User (logger Warn ''start() is deprecated, use connect() instead'' s)
      | Disconnect \<Rightarrow> disconnect s
      | Subscribe ev l \<Rightarrow> addListener ev l False s
      | SubscribeOnce ev l \<Rightarrow> addListener ev l True s
      | Unsubscribe ev l \<Rightarrow> removeListener ev l s
      | UnsubscribeAll ev \<Rightarrow> removeAllListeners ev s
      | LookupDone k res \<Rightarrow> lookupDone k res s
      | SocketOpen sid \<Rightarrow>
          if sid < length (sockets s) \<and> readyState (sockets s ! sid) = WS_CONNECTING then
            (let s1 = setReadyState sid WS_OPEN s
             in if handlers (sockets s1 ! sid) then onOpen sid (emits (Sent sid) s1) else s1)
          else s
      | SocketMessage sid frame \<Rightarrow>
          if sid < length (sockets s) \<and> handlers (sockets s ! sid) \<and>
             (readyState (sockets s ! sid) = WS_OPEN \<or> readyState (sockets s ! sid) = WS_CLOSING)
          then onMessage parseJSON frame s
          else s
      | SocketClosing sid \<Rightarrow>
          if sid < length (sockets s) \<and> readyState (sockets s ! sid) = WS_OPEN then
            setReadyState sid WS_CLOSING s
          else s
      | SocketError sid \<Rightarrow>
          if sid < length (sockets s) \<and> readyState (sockets s ! sid) \<noteq> WS_CLOSED then
            (let s1 = setReadyState sid WS_CLOSING s
             in if handlers (sockets s1 ! sid) then onSocketError sid s1
                else emits (Uncaught UnhandledErrorEvent) s1)
          else s
      | SocketClose sid \<Rightarrow>
          if sid < length (sockets s) \<and> readyState (sockets s ! sid) \<noteq> WS_CLOSED then
            (let s1 = setReadyState sid WS_CLOSED s
             in if handlers (sockets s1 ! sid) then onClose s1 else s1)
          else s
      | SocketPong sid \<Rightarrow>
          if sid < length (sockets s) \<and> handlers (sockets s ! sid) then onPong s else s
      | ReconnectTimer h \<Rightarrow>
          if h \<in> set (timeouts s) then reconnectFired (s\<lparr>timeouts := removeAll h (timeouts s)\<rparr>)
          else s
      | HeartbeatTimer h \<Rightarrow> if h \<in> set (intervals s) then heartbeat s else s
      | RejectionCaught \<Rightarrow>
          if rejections s > 0 then rejectionCaught (s\<lparr>rejections := rejections s - 1\<rparr>) else s)"

definition run :: "parser \<Rightarrow> event list \<Rightarrow> client \<Rightarrow> client" where
  "run parseJSON evs s = foldl (\<lambda>s e. step parseJSON e s) s evs"

section \<open>Notions used in the statements below\<close>

text \<open>The callback behind a registration, and the callbacks that a dispatch over a list of
  them reaches: all up to the first that raises, that one included.\<close>

fun callback :: "registration \<Rightarrow> listener" where
  "callback (On l) = l"
| "callback (Once h l) = l"

fun delivered :: "listener list \<Rightarrow> listener list" where
  "delivered [] = []"
| "delivered (l # ls) = (if raises l then [l] else l # delivered ls)"

text \<open>Options as an application gives them: both callbacks (the state-change callback
  only returns), a transport configuration that \<^verbatim>\<open>ws\<close> accepts, no connection options.\<close>

definition sampleOptions :: ClientOptions where
  "sampleOptions =
     \<lparr>plainEmote = False, onError = True, onConnectionStateChange = Some (\<lambda>newState. Returns),
      websocket = Accepted,
      connection =
        \<lparr>autoReconnect = None, maxReconnectAttempts = None, reconnectInterval = None,
         maxReconnectInterval = None, heartbeatInterval = None\<rparr>\<rparr>"

text \<open>A client of channel xqc that has connected: connect() was called, the lookup gave
  room 12345, and the socket opened.\<close>

definition connectedClient :: client where
  "connectedClient =
     run sampleParseJSON [Connect, LookupDone 0 (LookupBody (Some 12345)), SocketOpen 0]
       (createClient ''xqc'' sampleOptions)"

text \<open>A state differs from another in the listener registry and the trace only.\<close>

abbreviation registry_only :: "client \<Rightarrow> client \<Rightarrow> bool" where
  "registry_only s' s \<equiv>
     s' = s\<lparr>listeners := listeners s', onceListeners := onceListeners s',
            emitter := emitter s', effects := effects s'\<rparr>"

text \<open>The configured state-change callback calls \<^verbatim>\<open>disconnect()\<close> when it is called with
  this state; and: setConnectionState, called with this state, finds the state changed and
  calls such a callback.\<close>

definition disconnectsOn :: "ClientOptions \<Rightarrow> ConnectionState \<Rightarrow> bool" where
  "disconnectsOn options newState =
     (case onConnectionStateChange options of
        None \<Rightarrow> False
      | Some onChange \<Rightarrow> onChange newState = Disconnects)"

definition reenters :: "ConnectionState \<Rightarrow> client \<Rightarrow> bool" where
  "reenters newState s =
     (connectionState s \<noteq> newState \<and> disconnectsOn (mergedOptions s) newState)"


text \<open>What holds in every state after a call of \<^verbatim>\<open>disconnect()\<close> that has returned to the
  event loop.\<close>

abbreviation at_rest :: "client \<Rightarrow> bool" where
  "at_rest s \<equiv>
     isDisconnected s \<and> connectionState s \<noteq> CONNECTED \<and> heartbeatTimer s = None"

section \<open>Properties of the decoder\<close>

lemma appEvent_eq [simp]: "appEvent a = appEvent b \<longleftrightarrow> a = b"
  by (simp add: appEvent_def)

lemma appEvent_neq_pusher [simp]: "appEvent a \<noteq> CHR ''p'' # s"
  by (simp add: appEvent_def)

lemma pusher_neq_appEvent [simp]: "CHR ''p'' # s \<noteq> appEvent a"
  by (simp add: appEvent_def)

text \<open>The case labels of the switch are the tags of the table.\<close>

lemma eventTable_labels:
  "eventTable =
    [(appEvent ''ChatMessageEvent'', ''ChatMessage''),
     (appEvent ''SubscriptionEvent'', ''Subscription''),
     (appEvent ''GiftedSubscriptionsEvent'', ''GiftedSubscriptions''),
     (appEvent ''StreamHostEvent'', ''StreamHost''),
     (appEvent ''MessageDeletedEvent'', ''MessageDeleted''),
     (appEvent ''UserBannedEvent'', ''UserBanned''),
     (appEvent ''UserUnbannedEvent'', ''UserUnbanned''),
     (appEvent ''PinnedMessageCreatedEvent'', ''PinnedMessageCreated''),
     (appEvent ''PinnedMessageDeletedEvent'', ''PinnedMessageDeleted''),
     (appEvent ''PollUpdateEvent'', ''PollUpdate''),
     (appEvent ''PollDeleteEvent'', ''PollDelete''),
     (''pusher:connection_established'', ''PusherConnectionEstablished''),
     (''pusher_internal:subscription_succeeded'', ''PusherSubscriptionSucceeded''),
     (''pusher:pong'', ''PusherPong''),
     (''pusher:ping'', ''PusherPing''),
     (''pusher:error'', ''PusherError'')]"
  unfolding eventTable_def appEvent_def ..

lemma tagLogs_appEvent [simp]: "tagLogs (appEvent a) = []"
  by (simp add: tagLogs_def appEvent_def)

lemma switch_known:
  assumes "parseJSON (JStr message) = Inr env" "get_prop env ''event'' = Inr (JStr tag)"
    "(tag, kind) \<in> set eventTable"
  shows "parseMessage_try parseJSON message = decodeAs parseJSON kind (tagLogs tag) env"
proof -
  from assms(3) have "(tag, kind) \<in> set eventTable" .
  then show ?thesis
    unfolding eventTable_labels set_simps insert_iff empty_iff prod.inject
    by (elim disjE conjE FalseE) (simp_all add: parseMessage_try_def assms(1,2) tagLogs_def)
qed

lemma switch_unknown:
  assumes "parseJSON (JStr message) = Inr env" "get_prop env ''event'' = Inr ev"
    "ev \<notin> JStr ` fst ` set eventTable"
  shows "parseMessage_try parseJSON message = ([(Debug, ''Unknown event type:'')], Inr None)"
  using assms(3) unfolding parseMessage_try_def eventTable_labels
  by (simp add: assms(1,2) image_iff)

lemma parseMessage_snd:
  "snd (parseMessage parseJSON message) =
     (case snd (parseMessage_try parseJSON message) of Inl e \<Rightarrow> Inr None | Inr r \<Rightarrow> Inr r)"
  by (simp add: parseMessage_def split: prod.splits sum.splits)

text \<open>
  Claim C3, as amended. For every tag of the fixed table, decoding a well-formed envelope with
  that tag (the frame decodes to an object whose \<^verbatim>\<open>event\<close> is the tag) whose \<^verbatim>\<open>data\<close>
  decodes returns an event whose type is the table's entry for the tag and whose data is the
  decoded \<^verbatim>\<open>data\<close>; when the \<^verbatim>\<open>data\<close> does not decode, the decoder returns \<^verbatim>\<open>null\<close>
  after logging the failure at error level. For every \<^verbatim>\<open>event\<close> outside the table the decoder
  returns the result for an unknown event (\<^verbatim>\<open>null\<close>, logged at debug level as an unknown
  event type) and does not fail. The log lines are those of the tag's case.
\<close>

theorem C3_decode_follows_table:
  assumes "parseJSON (JStr message) = Inr (JObj kvs)"
    and "map_of kvs ''event'' = Some ev"
  shows "(\<forall>tag kind. ev = JStr tag \<and> (tag, kind) \<in> set eventTable \<longrightarrow>
            (\<forall>d. parseJSON (prop_of (JObj kvs) ''data'') = Inr d \<longrightarrow>
               parseMessage parseJSON message =
                 (tagLogs tag, Inr (Some \<lparr>msg_type = kind, msg_data = d\<rparr>))) \<and>
            (\<forall>e. parseJSON (prop_of (JObj kvs) ''data'') = Inl e \<longrightarrow>
               parseMessage parseJSON message =
                 (tagLogs tag @ [(Err, ''Error parsing message:'')], Inr None))) \<and>
         (ev \<notin> JStr ` fst ` set eventTable \<longrightarrow>
            parseMessage parseJSON message = ([(Debug, ''Unknown event type:'')], Inr None))"
proof -
  have ev: "get_prop (JObj kvs) ''event'' = Inr ev"
    using assms(2) by (simp add: get_prop_def)
  show ?thesis
  proof (intro conjI allI impI)
    fix tag kind d
    assume h: "ev = JStr tag \<and> (tag, kind) \<in> set eventTable"
      and d: "parseJSON (prop_of (JObj kvs) ''data'') = Inr d"
    from h have "parseMessage_try parseJSON message = decodeAs parseJSON kind (tagLogs tag) (JObj kvs)"
      using switch_known [of parseJSON message "JObj kvs" tag kind] assms(1) ev by blast
    with d show "parseMessage parseJSON message =
        (tagLogs tag, Inr (Some \<lparr>msg_type = kind, msg_data = d\<rparr>))"
      by (simp add: parseMessage_def decodeAs_def)
  next
    fix tag kind e
    assume h: "ev = JStr tag \<and> (tag, kind) \<in> set eventTable"
      and e: "parseJSON (prop_of (JObj kvs) ''data'') = Inl e"
    from h have "parseMessage_try parseJSON message = decodeAs parseJSON kind (tagLogs tag) (JObj kvs)"
      using switch_known [of parseJSON message "JObj kvs" tag kind] assms(1) ev by blast
    with e show "parseMessage parseJSON message =
        (tagLogs tag @ [(Err, ''Error parsing message:'')], Inr None)"
      by (simp add: parseMessage_def decodeAs_def)
  next
    assume "ev \<notin> JStr ` fst ` set eventTable"
    from switch_unknown [of parseJSON message "JObj kvs" ev, OF assms(1) ev this]
    show "parseMessage parseJSON message = ([(Debug, ''Unknown event type:'')], Inr None)"
      by (simp add: parseMessage_def)
  qed
qed

lemmas sample_defs = sampleParseJSON_def sampleTexts_def pongFrame_def futureFrame_def
  noEventFrame_def subscriptionFrame_def badDataFrame_def

lemma sample_pong: "sampleParseJSON (JStr pongFrame) =
   Inr (JObj [(''event'', JStr ''pusher:pong''), (''data'', JStr ''{}'')])"
  by (simp add: sample_defs)

lemma sample_bad_data: "sampleParseJSON (JStr badDataFrame) =
   Inr (JObj [(''event'', JStr ''pusher:pong''), (''data'', JStr ''oops'')])"
  by (simp add: sample_defs)

lemma sample_future: "sampleParseJSON (JStr futureFrame) =
   Inr (JObj [(''event'', JStr ''some:future_event''), (''data'', JStr ''{}'')])"
  by (simp add: sample_defs)

lemma sample_no_event: "sampleParseJSON (JStr noEventFrame) = Inr (JObj [(''data'', JStr ''{}'')])"
  by (simp add: sample_defs)

lemma sample_empty: "sampleParseJSON (JStr ''{}'') = Inr (JObj [])"
  by (simp add: sample_defs)

lemma sample_oops: "sampleParseJSON (JStr ''oops'') = Inl SyntaxError"
  by (simp add: sample_defs)

lemma sample_array: "sampleParseJSON (JStr ''[1]'') = Inr (JArr [JNum 1])"
  by (simp add: sample_defs)

lemma sample_null: "sampleParseJSON (JStr ''null'') = Inr JNull"
  by (simp add: sample_defs)

lemma sample_not_json: "sampleParseJSON (JStr ''not json'') = Inl SyntaxError"
  by (simp add: sample_defs)

theorem C3_decode_follows_table_witness:
  "parseMessage sampleParseJSON pongFrame =
      ([(Debug, ''Pusher pong received'')],
       Inr (Some \<lparr>msg_type = ''PusherPong'', msg_data = JObj []\<rparr>)) \<and>
   parseMessage sampleParseJSON badDataFrame =
      ([(Debug, ''Pusher pong received''), (Err, ''Error parsing message:'')], Inr None) \<and>
   parseMessage sampleParseJSON futureFrame =
      ([(Debug, ''Unknown event type:'')], Inr None)"
proof -
  have a': "map_of [(''event'', JStr ''pusher:pong''), (''data'', JStr ''oops'')] ''event'' =
      Some (JStr ''pusher:pong'')"
    by simp
  have e': "sampleParseJSON (prop_of (JObj [(''event'', JStr ''pusher:pong''), (''data'', JStr ''oops'')]) ''data'') =
      Inl SyntaxError"
    by (simp add: sample_oops)
  have a: "map_of [(''event'', JStr ''pusher:pong''), (''data'', JStr ''{}'')] ''event'' =
      Some (JStr ''pusher:pong'')"
    by simp
  have b: "map_of [(''event'', JStr ''some:future_event''), (''data'', JStr ''{}'')] ''event'' =
      Some (JStr ''some:future_event'')"
    by simp
  have c: "(''pusher:pong'', ''PusherPong'') \<in> set eventTable"
    by (simp add: eventTable_def)
  have d: "JStr ''some:future_event'' \<notin> JStr ` fst ` set eventTable"
    by (simp add: eventTable_def)
  have e: "sampleParseJSON (prop_of (JObj [(''event'', JStr ''pusher:pong''), (''data'', JStr ''{}'')]) ''data'') =
      Inr (JObj [])"
    by (simp add: sample_empty)
  have l: "tagLogs ''pusher:pong'' = [(Debug, ''Pusher pong received'')]"
    by (simp add: tagLogs_def)
  have p: "parseMessage sampleParseJSON pongFrame =
      (tagLogs ''pusher:pong'', Inr (Some \<lparr>msg_type = ''PusherPong'', msg_data = JObj []\<rparr>))"
    using C3_decode_follows_table [where parseJSON = sampleParseJSON, OF sample_pong a] c e
    by blast
  have q: "parseMessage sampleParseJSON futureFrame =
      ([(Debug, ''Unknown event type:'')], Inr None)"
    using C3_decode_follows_table [where parseJSON = sampleParseJSON, OF sample_future b] d
    by blast
  have r: "parseMessage sampleParseJSON badDataFrame =
      (tagLogs ''pusher:pong'' @ [(Err, ''Error parsing message:'')], Inr None)"
    using C3_decode_follows_table [where parseJSON = sampleParseJSON, OF sample_bad_data a'] c e'
    by blast
  from p q r l show ?thesis by simp
qed

text \<open>
  Claim C3 as stated fails: a well-formed envelope with a tag of the table whose \<^verbatim>\<open>data\<close>
  is not JSON text gives no event of the table's kind; the decoder returns \<^verbatim>\<open>null\<close>.
\<close>

theorem C3_counterexample:
  "\<not> malformedEnvelope sampleParseJSON badDataFrame \<and>
   sampleParseJSON (JStr badDataFrame) =
      Inr (JObj [(''event'', JStr ''pusher:pong''), (''data'', JStr ''oops'')]) \<and>
   (''pusher:pong'', ''PusherPong'') \<in> set eventTable \<and>
   parseMessage sampleParseJSON badDataFrame =
      ([(Debug, ''Pusher pong received''), (Err, ''Error parsing message:'')], Inr None)"
  by (simp add: malformedEnvelope_def parseMessage_def parseMessage_try_def sample_bad_data
      sample_oops get_prop_def decodeAs_def eventTable_def)

text \<open>
  Claim C1, as amended. For every frame that is not a well-formed envelope, parseMessage raises
  nothing and returns \<^verbatim>\<open>null\<close>, never an event object. When the text is not JSON, or decodes
  to \<^verbatim>\<open>null\<close>, the failure is caught inside parseMessage and logged at error level; every
  other such frame (a decoded value that is not an object, or an object without an
  \<^verbatim>\<open>event\<close> field) is logged at debug level as an unknown event type.
\<close>

theorem C1_returns_null:
  assumes "malformedEnvelope parseJSON message"
  shows "parseMessage parseJSON message =
     (case parseJSON (JStr message) of
        Inl e \<Rightarrow> ([(Err, ''Error parsing message:'')], Inr None)
      | Inr env \<Rightarrow>
          if env = JNull \<or> env = JUndefined then ([(Err, ''Error parsing message:'')], Inr None)
          else ([(Debug, ''Unknown event type:'')], Inr None))"
proof (cases "parseJSON (JStr message)")
  case (Inl e)
  then show ?thesis by (simp add: parseMessage_def parseMessage_try_def)
next
  case (Inr env)
  show ?thesis
  proof (cases "env = JUndefined \<or> env = JNull")
    case True
    with Inr show ?thesis
      by (auto simp add: parseMessage_def parseMessage_try_def get_prop_def)
  next
    case False
    with Inr assms have "get_prop env ''event'' = Inr JUndefined"
      by (cases env) (simp_all add: malformedEnvelope_def get_prop_def)
    moreover have "JUndefined \<notin> JStr ` fst ` set eventTable" by blast
    ultimately show ?thesis
      using switch_unknown [of parseJSON message env JUndefined] Inr False
      by (simp add: parseMessage_def)
  qed
qed

theorem C1_returns_null_witness:
  "malformedEnvelope sampleParseJSON ''[1]'' \<and>
   parseMessage sampleParseJSON ''[1]'' = ([(Debug, ''Unknown event type:'')], Inr None) \<and>
   malformedEnvelope sampleParseJSON noEventFrame \<and>
   parseMessage sampleParseJSON noEventFrame = ([(Debug, ''Unknown event type:'')], Inr None) \<and>
   malformedEnvelope sampleParseJSON ''null'' \<and>
   parseMessage sampleParseJSON ''null'' = ([(Err, ''Error parsing message:'')], Inr None)"
proof -
  have m1: "malformedEnvelope sampleParseJSON ''[1]''"
    by (simp add: malformedEnvelope_def sample_array)
  have m2: "malformedEnvelope sampleParseJSON noEventFrame"
    by (simp add: malformedEnvelope_def sample_no_event)
  have m3: "malformedEnvelope sampleParseJSON ''null''"
    by (simp add: malformedEnvelope_def sample_null)
  from C1_returns_null [OF m1] C1_returns_null [OF m2] C1_returns_null [OF m3] m1 m2 m3
  show ?thesis by (simp add: sample_array sample_no_event sample_null)
qed

text \<open>
  Claim C1 as stated fails: on text that is not JSON the decoder does not fail with an error,
  it returns \<^verbatim>\<open>null\<close> to its caller.
\<close>

theorem C1_counterexample:
  "malformedEnvelope sampleParseJSON ''not json'' \<and>
   parseMessage sampleParseJSON ''not json'' = ([(Err, ''Error parsing message:'')], Inr None)"
  by (simp add: malformedEnvelope_def parseMessage_def parseMessage_try_def sample_not_json)

section \<open>Properties of the lifecycle\<close>

lemma run_snoc: "run pj (evs @ [e]) s = step pj e (run pj evs s)"
  by (simp add: run_def)

lemma run_Nil: "run pj [] s = s"
  by (simp add: run_def)

lemma run_Cons: "run pj (e # evs) s = run pj evs (step pj e s)"
  by (simp add: run_def)

lemma fire_frame: "registry_only (snd (fire ev p r s)) s"
  by (cases r) (simp_all add: invoke_def emits_def removeListener_def)

lemma emit_loop_frame: "registry_only (snd (emit_loop ev p rs s)) s"
proof (induction rs arbitrary: s)
  case Nil
  show ?case by simp
next
  case (Cons r rs)
  obtain x s1 where f: "fire ev p r s = (x, s1)" by (cases "fire ev p r s")
  then have a: "registry_only s1 s" using fire_frame [of ev p r s] by simp
  show ?case
  proof (cases x)
    case None
    have b: "registry_only (snd (emit_loop ev p rs s1)) s1" by (rule Cons.IH)
    have "snd (emit_loop ev p (r # rs) s) = snd (emit_loop ev p rs s1)"
      using f None by simp
    moreover have "registry_only (snd (emit_loop ev p rs s1)) s"
      by (subst b, subst a) simp
    ultimately show ?thesis by simp
  next
    case (Some e)
    with f a show ?thesis by simp
  qed
qed

lemma emit_frame: "emit ev p s = (x, s') \<Longrightarrow> registry_only s' s"
  using emit_loop_frame [of ev p "emitter s ev" s]
  by (auto simp: emit_def split: if_splits)

lemma emit_fields:
  assumes "emit ev p s = (x, s')"
  shows "isDisconnected s' = isDisconnected s" "connectionState s' = connectionState s"
    "heartbeatTimer s' = heartbeatTimer s" "channelInfo s' = channelInfo s"
    "sockets s' = sockets s" "mergedOptions s' = mergedOptions s" "socket s' = socket s"
    "reconnectAttempts s' = reconnectAttempts s" "reconnectTimer s' = reconnectTimer s"
    "timeouts s' = timeouts s" "intervals s' = intervals s" "nextHandle s' = nextHandle s"
    "lookups s' = lookups s" "rejections s' = rejections s" "channelName s' = channelName s"
  by (subst emit_frame [OF assms], simp)+


lemma emits_fields [simp]:
  "isDisconnected (emits e s) = isDisconnected s" "connectionState (emits e s) = connectionState s"
  "heartbeatTimer (emits e s) = heartbeatTimer s" "channelInfo (emits e s) = channelInfo s"
  "sockets (emits e s) = sockets s" "mergedOptions (emits e s) = mergedOptions s"
  "socket (emits e s) = socket s"
  by (simp_all add: emits_def)

lemma logger_fields [simp]:
  "isDisconnected (logger l m s) = isDisconnected s" "connectionState (logger l m s) = connectionState s"
  "heartbeatTimer (logger l m s) = heartbeatTimer s" "channelInfo (logger l m s) = channelInfo s"
  "sockets (logger l m s) = sockets s" "mergedOptions (logger l m s) = mergedOptions s"
  "socket (logger l m s) = socket s"
  by (simp_all add: logger_def)

lemma handleError_fields [simp]:
  "isDisconnected (handleError err s) = isDisconnected s"
  "connectionState (handleError err s) = connectionState s"
  "heartbeatTimer (handleError err s) = heartbeatTimer s"
  "channelInfo (handleError err s) = channelInfo s"
  "sockets (handleError err s) = sockets s" "mergedOptions (handleError err s) = mergedOptions s"
  "socket (handleError err s) = socket s"
  by (simp_all add: handleError_def Let_def)

lemma startHeartbeat_fields [simp]:
  "isDisconnected (startHeartbeat s) = isDisconnected s"
  "connectionState (startHeartbeat s) = connectionState s"
  "channelInfo (startHeartbeat s) = channelInfo s"
  "sockets (startHeartbeat s) = sockets s" "mergedOptions (startHeartbeat s) = mergedOptions s"
  "socket (startHeartbeat s) = socket s"
  by (simp_all add: startHeartbeat_def)

lemma startHeartbeat_timer [simp]:
  "heartbeatTimer (startHeartbeat s) =
     (if \<not> truthy (heartbeatInterval (connection (mergedOptions s))) \<or> heartbeatTimer s \<noteq> None
      then heartbeatTimer s else Some (nextHandle s))"
  by (simp add: startHeartbeat_def)

lemma stopHeartbeat_fields [simp]:
  "isDisconnected (stopHeartbeat s) = isDisconnected s"
  "connectionState (stopHeartbeat s) = connectionState s"
  "heartbeatTimer (stopHeartbeat s) = None"
  "channelInfo (stopHeartbeat s) = channelInfo s"
  "sockets (stopHeartbeat s) = sockets s" "mergedOptions (stopHeartbeat s) = mergedOptions s"
  "socket (stopHeartbeat s) = socket s"
  by (simp_all add: stopHeartbeat_def split: option.splits)

lemma scheduleReconnect_fields [simp]:
  "isDisconnected (scheduleReconnect s) = isDisconnected s"
  "connectionState (scheduleReconnect s) = connectionState s"
  "heartbeatTimer (scheduleReconnect s) = heartbeatTimer s"
  "channelInfo (scheduleReconnect s) = channelInfo s"
  "sockets (scheduleReconnect s) = sockets s" "mergedOptions (scheduleReconnect s) = mergedOptions s"
  "socket (scheduleReconnect s) = socket s"
  by (simp_all add: scheduleReconnect_def Let_def)

lemma rejectPromise_fields [simp]:
  "isDisconnected (rejectPromise c err s) = isDisconnected s"
  "connectionState (rejectPromise c err s) = connectionState s"
  "heartbeatTimer (rejectPromise c err s) = heartbeatTimer s"
  "channelInfo (rejectPromise c err s) = channelInfo s"
  "sockets (rejectPromise c err s) = sockets s" "mergedOptions (rejectPromise c err s) = mergedOptions s"
  "socket (rejectPromise c err s) = socket s"
  by (simp_all add: rejectPromise_def Let_def)

lemma addListener_fields [simp]:
  "isDisconnected (addListener ev l b s) = isDisconnected s"
  "connectionState (addListener ev l b s) = connectionState s"
  "heartbeatTimer (addListener ev l b s) = heartbeatTimer s"
  "channelInfo (addListener ev l b s) = channelInfo s"
  "sockets (addListener ev l b s) = sockets s"
  "mergedOptions (addListener ev l b s) = mergedOptions s"
  "socket (addListener ev l b s) = socket s"
  by (simp_all add: addListener_def)

lemma removeListener_fields [simp]:
  "isDisconnected (removeListener ev l s) = isDisconnected s"
  "connectionState (removeListener ev l s) = connectionState s"
  "heartbeatTimer (removeListener ev l s) = heartbeatTimer s"
  "channelInfo (removeListener ev l s) = channelInfo s"
  "sockets (removeListener ev l s) = sockets s"
  "mergedOptions (removeListener ev l s) = mergedOptions s"
  "socket (removeListener ev l s) = socket s"
  by (simp_all add: removeListener_def)

lemma removeAllListeners_fields [simp]:
  "isDisconnected (removeAllListeners evo s) = isDisconnected s"
  "connectionState (removeAllListeners evo s) = connectionState s"
  "heartbeatTimer (removeAllListeners evo s) = heartbeatTimer s"
  "channelInfo (removeAllListeners evo s) = channelInfo s"
  "sockets (removeAllListeners evo s) = sockets s"
  "mergedOptions (removeAllListeners evo s) = mergedOptions s"
  "socket (removeAllListeners evo s) = socket s"
  by (simp_all add: removeAllListeners_def split: option.splits)

text \<open>setConnectionState and disconnect, layer by layer of the recursion: a state that does
  not change; disconnect of a client whose state is \<^verbatim>\<open>DISCONNECTED\<close>; setConnectionState to
  \<^verbatim>\<open>DISCONNECTED\<close>; disconnect; setConnectionState.\<close>

lemma setConnectionState_same: "connectionState s = n \<Longrightarrow> setConnectionState n s = s"
  by (simp add: setConnectionState.simps)

lemma disconnect_via:
  "heartbeatTimer (disconnect s) = None"
  "channelInfo (disconnect s) = None"
  "socket (disconnect s) = None"
  "isDisconnected (disconnect s) =
     isDisconnected (setConnectionState DISCONNECTED
       ((logger Info ''Disconnecting client...'' s)\<lparr>isDisconnected := True\<rparr>))"
  "connectionState (disconnect s) =
     connectionState (setConnectionState DISCONNECTED
       ((logger Info ''Disconnecting client...'' s)\<lparr>isDisconnected := True\<rparr>))"
  "mergedOptions (disconnect s) =
     mergedOptions (setConnectionState DISCONNECTED
       ((logger Info ''Disconnecting client...'' s)\<lparr>isDisconnected := True\<rparr>))"
  "length (sockets (disconnect s)) =
     length (sockets (setConnectionState DISCONNECTED
       ((logger Info ''Disconnecting client...'' s)\<lparr>isDisconnected := True\<rparr>)))"
  by (simp_all add: disconnect.simps [of s] Let_def split: option.splits)

lemma disconnect_of_disconnected:
  assumes "connectionState s = DISCONNECTED"
  shows "isDisconnected (disconnect s)" "connectionState (disconnect s) = DISCONNECTED"
    "mergedOptions (disconnect s) = mergedOptions s"
    "length (sockets (disconnect s)) = length (sockets s)"
  using assms by (simp_all add: disconnect_via setConnectionState_same)

lemma setConnectionState_DISCONNECTED:
  "connectionState (setConnectionState DISCONNECTED s) = DISCONNECTED"
  "isDisconnected s \<Longrightarrow> isDisconnected (setConnectionState DISCONNECTED s)"
  "mergedOptions (setConnectionState DISCONNECTED s) = mergedOptions s"
  "length (sockets (setConnectionState DISCONNECTED s)) = length (sockets s)"
  by (simp_all add: setConnectionState.simps [of DISCONNECTED s] Let_def
        disconnect_of_disconnected split: option.splits)

lemma disconnect_fields [simp]:
  "isDisconnected (disconnect s)"
  "connectionState (disconnect s) = DISCONNECTED"
  "heartbeatTimer (disconnect s) = None"
  "channelInfo (disconnect s) = None"
  "length (sockets (disconnect s)) = length (sockets s)"
  "mergedOptions (disconnect s) = mergedOptions s"
  "socket (disconnect s) = None"
  by (simp_all add: disconnect_via setConnectionState_DISCONNECTED)

lemma setConnectionState_fields [simp]:
  "isDisconnected (setConnectionState n s) =
     (isDisconnected s \<or> connectionState s \<noteq> n \<and> disconnectsOn (mergedOptions s) n)"
  "connectionState (setConnectionState n s) =
     (if connectionState s \<noteq> n \<and> disconnectsOn (mergedOptions s) n then DISCONNECTED else n)"
  "heartbeatTimer (setConnectionState n s) =
     (if connectionState s \<noteq> n \<and> disconnectsOn (mergedOptions s) n then None
      else heartbeatTimer s)"
  "channelInfo (setConnectionState n s) =
     (if connectionState s \<noteq> n \<and> disconnectsOn (mergedOptions s) n then None
      else channelInfo s)"
  "length (sockets (setConnectionState n s)) = length (sockets s)"
  "mergedOptions (setConnectionState n s) = mergedOptions s"
  "socket (setConnectionState n s) =
     (if connectionState s \<noteq> n \<and> disconnectsOn (mergedOptions s) n then None else socket s)"
  by (auto simp add: setConnectionState.simps [of n s] Let_def disconnectsOn_def
        split: option.splits)

text \<open>When the callback does not call \<^verbatim>\<open>disconnect()\<close>, setConnectionState changes the state
  and the trace only.\<close>

lemma setConnectionState_plain:
  "\<not> reenters n s \<Longrightarrow>
     setConnectionState n s =
       (if connectionState s = n then s
        else s\<lparr>connectionState := n,
               effects := effects s @ Logged Info ''Connection state changed to:'' #
                 (if onConnectionStateChange (mergedOptions s) = None then []
                  else [StateChanged n])\<rparr>)"
  by (auto simp add: setConnectionState.simps [of n s] Let_def reenters_def disconnectsOn_def
        logger_def emits_def split: option.splits)

lemma connectFailed_fields [simp]:
  "isDisconnected (connectFailed c s) =
     (isDisconnected s \<or> connectionState s \<noteq> ERROR \<and> disconnectsOn (mergedOptions s) ERROR)"
  "connectionState (connectFailed c s) =
     (if connectionState s \<noteq> ERROR \<and> disconnectsOn (mergedOptions s) ERROR then DISCONNECTED
      else ERROR)"
  "heartbeatTimer (connectFailed c s) =
     (if connectionState s \<noteq> ERROR \<and> disconnectsOn (mergedOptions s) ERROR then None
      else heartbeatTimer s)"
  "channelInfo (connectFailed c s) =
     (if connectionState s \<noteq> ERROR \<and> disconnectsOn (mergedOptions s) ERROR then None
      else channelInfo s)"
  "length (sockets (connectFailed c s)) = length (sockets s)"
  "mergedOptions (connectFailed c s) = mergedOptions s"
  "socket (connectFailed c s) =
     (if connectionState s \<noteq> ERROR \<and> disconnectsOn (mergedOptions s) ERROR then None
      else socket s)"
  by (simp_all add: connectFailed_def Let_def)

lemma isConnected_cong:
  "socket s' = socket s \<Longrightarrow> sockets s' = sockets s \<Longrightarrow> isConnected s' = isConnected s"
  by (cases "socket s") (simp_all add: isConnected_def)

lemma connect_fields [simp]:
  "isDisconnected (connect c s) =
     (isDisconnected s \<or>
      \<not> isConnected s \<and> connectionState s \<noteq> CONNECTING \<and>
        disconnectsOn (mergedOptions s) CONNECTING)"
  "connectionState (connect c s) =
     (if isConnected s then connectionState s
      else if connectionState s \<noteq> CONNECTING \<and> disconnectsOn (mergedOptions s) CONNECTING
        then DISCONNECTED
      else CONNECTING)"
  "heartbeatTimer (connect c s) =
     (if \<not> isConnected s \<and> connectionState s \<noteq> CONNECTING \<and>
         disconnectsOn (mergedOptions s) CONNECTING then None
      else heartbeatTimer s)"
  "channelInfo (connect c s) =
     (if \<not> isConnected s \<and> connectionState s \<noteq> CONNECTING \<and>
         disconnectsOn (mergedOptions s) CONNECTING then None
      else channelInfo s)"
  "length (sockets (connect c s)) = length (sockets s)"
  "mergedOptions (connect c s) = mergedOptions s"
  by (simp_all add: connect_def Let_def isConnected_cong [of "emits (ConnectCalled c) s" s])

lemma openSocket_fields [simp]:
  "websocket (mergedOptions s) = Accepted \<Longrightarrow> isDisconnected (openSocket c i s) = isDisconnected s"
  "websocket (mergedOptions s) = Accepted \<Longrightarrow>
     connectionState (openSocket c i s) = connectionState s"
  "websocket (mergedOptions s) = Accepted \<Longrightarrow>
     heartbeatTimer (openSocket c i s) = heartbeatTimer s"
  "websocket (mergedOptions s) = Accepted \<Longrightarrow>
     channelInfo (openSocket c i s) = Some (i, channelName s)"
  "websocket (mergedOptions s) = Accepted \<Longrightarrow>
     sockets (openSocket c i s) =
       sockets s @ [\<lparr>readyState = WS_CONNECTING, handlers = True, awaited_by = c, settled = False\<rparr>]"
  "mergedOptions (openSocket c i s) = mergedOptions s"
  "websocket (mergedOptions s) = Accepted \<Longrightarrow> socket (openSocket c i s) = Some (length (sockets s))"
  by (simp_all add: openSocket_def Let_def logger_def emits_def)

lemma openSocket_refused [simp]:
  "websocket (mergedOptions s) = Refused \<Longrightarrow>
     openSocket c i s =
       connectFailed c ((logger Info ''Found chatroom ID'' s)\<lparr>channelInfo := Some (i, channelName s)\<rparr>)"
  by (simp add: openSocket_def Let_def logger_def emits_def)

lemma websocket_cases: "websocket m = Accepted \<or> websocket m = Refused"
  by (cases "websocket m") simp_all

lemma resolveSocket_fields [simp]:
  "isDisconnected (resolveSocket sid s) = isDisconnected s"
  "connectionState (resolveSocket sid s) = connectionState s"
  "heartbeatTimer (resolveSocket sid s) = heartbeatTimer s"
  "channelInfo (resolveSocket sid s) = channelInfo s"
  "length (sockets (resolveSocket sid s)) = length (sockets s)"
  "mergedOptions (resolveSocket sid s) = mergedOptions s"
  "socket (resolveSocket sid s) = socket s"
  by (simp_all add: resolveSocket_def)

lemma rejectSocket_fields [simp]:
  "isDisconnected (rejectSocket sid err s) = isDisconnected s"
  "connectionState (rejectSocket sid err s) = connectionState s"
  "heartbeatTimer (rejectSocket sid err s) = heartbeatTimer s"
  "channelInfo (rejectSocket sid err s) = channelInfo s"
  "length (sockets (rejectSocket sid err s)) = length (sockets s)"
  "mergedOptions (rejectSocket sid err s) = mergedOptions s"
  "socket (rejectSocket sid err s) = socket s"
  by (simp_all add: rejectSocket_def)

lemma setReadyState_fields [simp]:
  "isDisconnected (setReadyState sid r s) = isDisconnected s"
  "connectionState (setReadyState sid r s) = connectionState s"
  "heartbeatTimer (setReadyState sid r s) = heartbeatTimer s"
  "channelInfo (setReadyState sid r s) = channelInfo s"
  "length (sockets (setReadyState sid r s)) = length (sockets s)"
  "mergedOptions (setReadyState sid r s) = mergedOptions s"
  "socket (setReadyState sid r s) = socket s"
  by (simp_all add: setReadyState_def)

lemma emit_view:
  "emit ev p s = (x, s') \<Longrightarrow>
     isDisconnected s' = isDisconnected s \<and> connectionState s' = connectionState s \<and>
     heartbeatTimer s' = heartbeatTimer s \<and> channelInfo s' = channelInfo s \<and>
     sockets s' = sockets s \<and> mergedOptions s' = mergedOptions s \<and> socket s' = socket s"
  by (simp add: emit_fields)

lemma onOpen_fields:
  "isDisconnected (onOpen sid s) =
     (isDisconnected s \<or> connectionState s \<noteq> CONNECTED \<and> disconnectsOn (mergedOptions s) CONNECTED)"
  "connectionState (onOpen sid s) =
     (if isDisconnected s then connectionState s
      else if connectionState s \<noteq> CONNECTED \<and> disconnectsOn (mergedOptions s) CONNECTED
        then DISCONNECTED
      else CONNECTED)"
  "heartbeatTimer (onOpen sid s) = None \<longleftrightarrow>
     (if isDisconnected s then heartbeatTimer s = None
      else \<not> truthy (heartbeatInterval (connection (mergedOptions s))) \<and>
           (connectionState s \<noteq> CONNECTED \<and> disconnectsOn (mergedOptions s) CONNECTED \<or>
            heartbeatTimer s = None))"
  "channelInfo (onOpen sid s) =
     (if \<not> isDisconnected s \<and> connectionState s \<noteq> CONNECTED \<and>
         disconnectsOn (mergedOptions s) CONNECTED then None
      else channelInfo s)"
  "length (sockets (onOpen sid s)) = length (sockets s)"
  "mergedOptions (onOpen sid s) = mergedOptions s"
  by (auto simp: onOpen_def Let_def split: prod.splits option.splits if_splits dest!: emit_view)

lemma onClose_fields:
  "isDisconnected (onClose s) =
     (isDisconnected s \<or>
      connectionState s \<noteq> DISCONNECTED \<and> disconnectsOn (mergedOptions s) DISCONNECTED)"
  "connectionState (onClose s) = (if isDisconnected s then connectionState s else DISCONNECTED)"
  "heartbeatTimer (onClose s) = None"
  "channelInfo (onClose s) =
     (if \<not> isDisconnected s \<and> connectionState s \<noteq> DISCONNECTED \<and>
         disconnectsOn (mergedOptions s) DISCONNECTED then None
      else channelInfo s)"
  "length (sockets (onClose s)) = length (sockets s)"
  "mergedOptions (onClose s) = mergedOptions s"
  by (auto simp: onClose_def Let_def split: prod.splits option.splits if_splits dest!: emit_view)

lemma onSocketError_fields:
  "isDisconnected (onSocketError sid s) =
     (isDisconnected s \<or> connectionState s \<noteq> ERROR \<and> disconnectsOn (mergedOptions s) ERROR)"
  "connectionState (onSocketError sid s) =
     (if connectionState s \<noteq> ERROR \<and> disconnectsOn (mergedOptions s) ERROR then DISCONNECTED
      else ERROR)"
  "heartbeatTimer (onSocketError sid s) = None"
  "channelInfo (onSocketError sid s) =
     (if connectionState s \<noteq> ERROR \<and> disconnectsOn (mergedOptions s) ERROR then None
      else channelInfo s)"
  "length (sockets (onSocketError sid s)) = length (sockets s)"
  "mergedOptions (onSocketError sid s) = mergedOptions s"
  by (auto simp: onSocketError_def Let_def split: prod.splits option.splits if_splits
        dest!: emit_view)

lemma route_view:
  "route m s = (x, s') \<Longrightarrow>
     isDisconnected s' = isDisconnected s \<and> connectionState s' = connectionState s \<and>
     heartbeatTimer s' = heartbeatTimer s \<and> channelInfo s' = channelInfo s \<and>
     sockets s' = sockets s \<and> mergedOptions s' = mergedOptions s \<and> socket s' = socket s"
  by (auto simp: route_def split: if_splits sum.splits dest!: emit_view)

lemma onMessage_fields:
  "isDisconnected (onMessage pj frame s) = isDisconnected s"
  "connectionState (onMessage pj frame s) = connectionState s"
  "heartbeatTimer (onMessage pj frame s) = heartbeatTimer s"
  "channelInfo (onMessage pj frame s) = channelInfo s"
  "sockets (onMessage pj frame s) = sockets s"
  "mergedOptions (onMessage pj frame s) = mergedOptions s"
  "socket (onMessage pj frame s) = socket s"
  by (auto simp: onMessage_def Let_def split: prod.splits option.splits sum.splits
        dest!: route_view)

lemma same_length_empty: "length xs = length ys \<Longrightarrow> (xs = []) = (ys = [])"
  by auto

lemmas sockets_empty [simp] =
  same_length_empty [OF resolveSocket_fields(5)] same_length_empty [OF rejectSocket_fields(5)]
  same_length_empty [OF setReadyState_fields(5)] same_length_empty [OF onOpen_fields(5)]
  same_length_empty [OF onSocketError_fields(5)] same_length_empty [OF disconnect_fields(5)]
  same_length_empty [OF onClose_fields(5)] same_length_empty [OF connect_fields(5)]
  same_length_empty [OF connectFailed_fields(5)] same_length_empty [OF setConnectionState_fields(5)]

lemma reconnectFired_fields [simp]:
  "isDisconnected (reconnectFired s) =
     (isDisconnected s \<or>
      \<not> isConnected s \<and> connectionState s \<noteq> CONNECTING \<and>
        disconnectsOn (mergedOptions s) CONNECTING)"
  "connectionState (reconnectFired s) =
     (if isConnected s then connectionState s
      else if connectionState s \<noteq> CONNECTING \<and> disconnectsOn (mergedOptions s) CONNECTING
        then DISCONNECTED
      else CONNECTING)"
  "heartbeatTimer (reconnectFired s) =
     (if \<not> isConnected s \<and> connectionState s \<noteq> CONNECTING \<and>
         disconnectsOn (mergedOptions s) CONNECTING then None
      else heartbeatTimer s)"
  "channelInfo (reconnectFired s) =
     (if \<not> isConnected s \<and> connectionState s \<noteq> CONNECTING \<and>
         disconnectsOn (mergedOptions s) CONNECTING then None
      else channelInfo s)"
  "length (sockets (reconnectFired s)) = length (sockets s)"
  "mergedOptions (reconnectFired s) = mergedOptions s"
  by (simp_all add: reconnectFired_def isConnected_cong [of "s\<lparr>reconnectTimer := None\<rparr>" s])

lemma rejectionCaught_fields [simp]:
  "isDisconnected (rejectionCaught s) = isDisconnected s"
  "connectionState (rejectionCaught s) = connectionState s"
  "heartbeatTimer (rejectionCaught s) = heartbeatTimer s"
  "channelInfo (rejectionCaught s) = channelInfo s"
  "sockets (rejectionCaught s) = sockets s" "mergedOptions (rejectionCaught s) = mergedOptions s"
  by (simp_all add: rejectionCaught_def Let_def)

lemma heartbeat_fields [simp]:
  "isDisconnected (heartbeat s) = isDisconnected s"
  "connectionState (heartbeat s) = connectionState s"
  "heartbeatTimer (heartbeat s) = heartbeatTimer s"
  "channelInfo (heartbeat s) = channelInfo s"
  "sockets (heartbeat s) = sockets s" "mergedOptions (heartbeat s) = mergedOptions s"
  by (simp_all add: heartbeat_def split: option.splits)

lemma onPong_fields [simp]:
  "isDisconnected (onPong s) = isDisconnected s"
  "connectionState (onPong s) = connectionState s"
  "heartbeatTimer (onPong s) = heartbeatTimer s"
  "channelInfo (onPong s) = channelInfo s"
  "sockets (onPong s) = sockets s" "mergedOptions (onPong s) = mergedOptions s"
  by (simp_all add: onPong_def)

lemmas same_length_fired [simp] = same_length_empty [OF reconnectFired_fields(5)]

lemmas handler_fields = onOpen_fields(1,2,4,6) onClose_fields onSocketError_fields(1,2,3,4,6)
  onMessage_fields



text \<open>The completion of a lookup, by what it gave and whether the transport's configuration is
  accepted.\<close>

lemma lookupDone_cases:
  "lookupDone k res s =
     (if k < length (lookups s) then
        (let s1 = s\<lparr>lookups := take k (lookups s) @ drop (Suc k) (lookups s)\<rparr>
         in if (\<exists>i. res = LookupBody (Some i) \<and> i \<noteq> 0) then
              openSocket (lookups s ! k) (the (case res of LookupBody x \<Rightarrow> x | _ \<Rightarrow> None)) s1
            else connectFailed (lookups s ! k) s1)
      else s)"
  by (auto simp add: lookupDone_def Let_def split: lookup.splits option.splits)





text \<open>After a call of \<^verbatim>\<open>disconnect()\<close> from the event loop.\<close>

lemma lookupDone_at_rest:
  assumes "at_rest s"
  shows "at_rest (lookupDone k res s)"
proof (cases "k < length (lookups s) \<and> (\<exists>i. res = LookupBody (Some i) \<and> i \<noteq> 0)")
  case True
  then obtain i where i: "res = LookupBody (Some i)" "i \<noteq> 0" "k < length (lookups s)" by blast
  show ?thesis
  proof (cases "websocket (mergedOptions s)")
    case Accepted
    with assms i show ?thesis by (simp add: lookupDone_def Let_def)
  next
    case Refused
    with assms i show ?thesis by (simp add: lookupDone_def Let_def)
  qed
next
  case False
  with assms show ?thesis
    by (auto simp add: lookupDone_def Let_def split: lookup.splits option.splits)
qed

lemma step_at_rest:
  assumes "at_rest s"
  shows "at_rest (step pj e s)"
proof (cases e)
  case (LookupDone k res)
  with assms show ?thesis by (simp add: step_def lookupDone_at_rest)
next
  case (SocketOpen sid)
  with assms show ?thesis by (simp add: step_def Let_def onOpen_fields)
qed (use assms in \<open>simp_all add: step_def Let_def handler_fields\<close>)

lemma run_at_rest: "at_rest s \<Longrightarrow> at_rest (run pj evs s)"
proof (induction evs rule: rev_induct)
  case Nil
  then show ?case unfolding run_Nil .
next
  case (snoc e evs)
  then have "at_rest (run pj evs s)" by blast
  then show ?case unfolding run_snoc by (rule step_at_rest)
qed

lemmas eval_defs = step_def createClient_def initial_def mergeConnection_def orDefault_def
  defaultConnectionOptions_def sampleOptions_def
  connect_def lookupDone_def openSocket_def connectFailed_def rejectPromise_def
  resolveSocket_def rejectSocket_def onOpen_def onMessage_def route_def onClose_def onSocketError_def
  onPong_def disconnect.simps reconnectFired_def rejectionCaught_def heartbeat_def scheduleReconnect_def
  reconnectRefused_def reconnectDelay_def isConnected_def truthy_def orElse_def
  startHeartbeat_def stopHeartbeat_def setConnectionState.simps handleError_def logger_def emits_def
  addListener_def removeListener_def removeAllListeners_def setReadyState_def createError_def
  emit_def invoke_def remove_last_def Let_def

lemma run3: "run pj [a, b, c] s = step pj c (step pj b (step pj a s))"
  by (simp add: run_def)

lemma connected_client:
  "connectedClient =
   (createClient ''xqc'' sampleOptions)
     \<lparr>socket := Some 0, channelInfo := Some (12345, ''xqc''), connectionState := CONNECTED,
      heartbeatTimer := Some 0,
      sockets := [\<lparr>readyState = WS_OPEN, handlers = True, awaited_by = User, settled = True\<rparr>],
      intervals := [0], nextHandle := 1,
      effects :=
        [ConnectCalled User, Logged Info ''Connecting to channel:'',
         Logged Info ''Connection state changed to:'', StateChanged CONNECTING, LookupStarted,
         Logged Info ''Found chatroom ID'', SocketCreated 0, Sent 0,
         Logged Info ''Connected to channel:'', Logged Info ''Connection state changed to:'',
         StateChanged CONNECTED, IntervalSet 0 30000, Resolved User]\<rparr>"
proof -
  let ?s0 = "createClient ''xqc'' sampleOptions"
  let ?s1 = "?s0\<lparr>connectionState := CONNECTING, lookups := [User],
      effects := [ConnectCalled User, Logged Info ''Connecting to channel:'',
         Logged Info ''Connection state changed to:'', StateChanged CONNECTING, LookupStarted]\<rparr>"
  let ?s2 = "?s1\<lparr>socket := Some 0, channelInfo := Some (12345, ''xqc''), lookups := [],
      sockets := [\<lparr>readyState = WS_CONNECTING, handlers = True, awaited_by = User, settled = False\<rparr>],
      effects := effects ?s1 @ [Logged Info ''Found chatroom ID'', SocketCreated 0]\<rparr>"
  have 1: "step sampleParseJSON Connect ?s0 = ?s1" by (simp add: eval_defs)
  have 2: "step sampleParseJSON (LookupDone 0 (LookupBody (Some 12345))) ?s1 = ?s2"
    by (simp add: eval_defs)
  have 3: "step sampleParseJSON (SocketOpen 0) ?s2 = ?s2\<lparr>connectionState := CONNECTED,
      heartbeatTimer := Some 0,
      sockets := [\<lparr>readyState = WS_OPEN, handlers = True, awaited_by = User, settled = True\<rparr>],
      intervals := [0], nextHandle := 1,
      effects := effects ?s2 @ [Sent 0,
         Logged Info ''Connected to channel:'', Logged Info ''Connection state changed to:'',
         StateChanged CONNECTED, IntervalSet 0 30000, Resolved User]\<rparr>" by (simp add: eval_defs)
  show ?thesis unfolding connectedClient_def run3 1 2 3 by (simp add: eval_defs)
qed

lemma isConnected_effects [simp]: "isConnected (s\<lparr>effects := e\<rparr>) = isConnected s"
  by (rule isConnected_cong) simp_all

section \<open>connect on an open connection\<close>

text \<open>
  Claim C8. In every state in which the transport handle exists and is open, connect()
  resolves at once and changes nothing but the trace: no lookup is started and no socket is
  made. Two calls in a row both resolve and leave the sockets and the handle as they were.
\<close>

theorem C8_connect_idempotent_when_open:
  assumes "isConnected s"
  shows "connect c s =
           s\<lparr>effects := effects s @
              [ConnectCalled c, Logged Debug ''Already connected to WebSocket'', Resolved c]\<rparr> \<and>
         connect c' (connect c s) =
           s\<lparr>effects := effects s @
              [ConnectCalled c, Logged Debug ''Already connected to WebSocket'', Resolved c,
               ConnectCalled c', Logged Debug ''Already connected to WebSocket'', Resolved c']\<rparr> \<and>
         sockets (connect c' (connect c s)) = sockets s \<and>
         socket (connect c' (connect c s)) = socket s \<and>
         lookups (connect c' (connect c s)) = lookups s \<and>
         isConnected (connect c' (connect c s))"
proof -
  have 1: "connect c s =
           s\<lparr>effects := effects s @
              [ConnectCalled c, Logged Debug ''Already connected to WebSocket'', Resolved c]\<rparr>"
    (is "_ = ?s1")
    using assms by (simp add: connect_def Let_def logger_def emits_def)
  have c1: "isConnected ?s1" using assms by simp
  have 2: "connect c' ?s1 =
           s\<lparr>effects := effects s @
              [ConnectCalled c, Logged Debug ''Already connected to WebSocket'', Resolved c,
               ConnectCalled c', Logged Debug ''Already connected to WebSocket'', Resolved c']\<rparr>"
    (is "_ = ?s2")
    using c1 by (simp add: connect_def Let_def logger_def emits_def)
  have c2: "isConnected ?s2" using assms by simp
  show ?thesis unfolding 1 2 using c2 by simp
qed

theorem C8_connect_idempotent_when_open_witness:
  "isConnected connectedClient \<and>
   length (sockets (connect User (connect User connectedClient))) = 1 \<and>
   socket (connect User (connect User connectedClient)) = Some 0"
proof -
  have c: "isConnected connectedClient" unfolding connected_client by (simp add: isConnected_def)
  have "sockets (connect User (connect User connectedClient)) = sockets connectedClient"
    and "socket (connect User (connect User connectedClient)) = socket connectedClient"
    using C8_connect_idempotent_when_open [OF c, of User User] by blast+
  moreover have "length (sockets connectedClient) = 1" "socket connectedClient = Some 0"
    unfolding connected_client by simp_all
  ultimately show ?thesis using c by simp
qed

section \<open>Reconnection backoff\<close>

lemma default_delay_capped: "5 \<le> n \<Longrightarrow> reconnectDelay defaultConnectionOptions n = 30000"
proof -
  assume "5 \<le> n"
  then have "(2::nat) ^ 5 \<le> 2 ^ n" by (intro power_increasing) simp_all
  then have "(30000::nat) \<le> 1000 * 2 ^ n" by simp
  then show ?thesis
    by (simp add: reconnectDelay_def defaultConnectionOptions_def orElse_def min_def)
qed

text \<open>
  One call of scheduleReconnect, as a function of the state: it arms a timer exactly when
  auto-reconnect is enabled, the attempt counter is below \<^verbatim>\<open>maxReconnectAttempts || 10\<close> and
  the client is not marked disconnected; otherwise it only logs a warning. The delay for the
  counter's value \<open>n\<close> is \<open>min (baseInterval * 2 ^ n) maxInterval\<close>; with base 1000 and cap
  30000 that is 1000, 2000, 4000, 8000, 16000, 30000 and 30000 from there on.
\<close>

lemma scheduleReconnect_outcome:
  "(autoReconnect (connection (mergedOptions s)) = Some True \<and>
    reconnectAttempts s < orElse (maxReconnectAttempts (connection (mergedOptions s))) 10 \<and>
    \<not> isDisconnected s \<longrightarrow>
      scheduleReconnect s =
        s\<lparr>reconnectTimer := Some (nextHandle s), timeouts := timeouts s @ [nextHandle s],
          nextHandle := Suc (nextHandle s),
          effects := effects s @
            [Logged Info ''Scheduling reconnection attempt'',
             TimeoutSet (nextHandle s)
               (min (orElse (reconnectInterval (connection (mergedOptions s))) 1000 *
                       2 ^ reconnectAttempts s)
                    (orElse (maxReconnectInterval (connection (mergedOptions s))) 30000))]\<rparr>) \<and>
   (autoReconnect (connection (mergedOptions s)) \<noteq> Some True \<or>
    orElse (maxReconnectAttempts (connection (mergedOptions s))) 10 \<le> reconnectAttempts s \<or>
    isDisconnected s \<longrightarrow>
      scheduleReconnect s =
        s\<lparr>effects := effects s @
            [Logged Warn ''Reconnection disabled or max attempts reached'']\<rparr>) \<and>
   orElse None d = d \<and> orElse (Some 0) d = d \<and> orElse (Some (Suc m)) d = Suc m \<and>
   map (reconnectDelay defaultConnectionOptions) [0, 1, 2, 3, 4, 5, 6] =
     [1000, 2000, 4000, 8000, 16000, 30000, 30000] \<and>
   (\<forall>n\<ge>5. reconnectDelay defaultConnectionOptions n = 30000)"
proof (intro conjI impI allI)
  assume "autoReconnect (connection (mergedOptions s)) = Some True \<and>
    reconnectAttempts s < orElse (maxReconnectAttempts (connection (mergedOptions s))) 10 \<and>
    \<not> isDisconnected s"
  then show "scheduleReconnect s =
        s\<lparr>reconnectTimer := Some (nextHandle s), timeouts := timeouts s @ [nextHandle s],
          nextHandle := Suc (nextHandle s),
          effects := effects s @
            [Logged Info ''Scheduling reconnection attempt'',
             TimeoutSet (nextHandle s)
               (min (orElse (reconnectInterval (connection (mergedOptions s))) 1000 *
                       2 ^ reconnectAttempts s)
                    (orElse (maxReconnectInterval (connection (mergedOptions s))) 30000))]\<rparr>"
    by (simp add: scheduleReconnect_def reconnectRefused_def reconnectDelay_def Let_def
          logger_def emits_def)
next
  assume "autoReconnect (connection (mergedOptions s)) \<noteq> Some True \<or>
    orElse (maxReconnectAttempts (connection (mergedOptions s))) 10 \<le> reconnectAttempts s \<or>
    isDisconnected s"
  then show "scheduleReconnect s =
        s\<lparr>effects := effects s @
            [Logged Warn ''Reconnection disabled or max attempts reached'']\<rparr>"
    by (auto simp: scheduleReconnect_def reconnectRefused_def logger_def emits_def)
next
  show "map (reconnectDelay defaultConnectionOptions) [0, 1, 2, 3, 4, 5, 6] =
     [1000, 2000, 4000, 8000, 16000, 30000, 30000]"
    by (simp add: reconnectDelay_def defaultConnectionOptions_def orElse_def)
next
  fix n :: nat assume "5 \<le> n"
  then show "reconnectDelay defaultConnectionOptions n = 30000" by (rule default_delay_capped)
qed (simp_all add: orElse_def)

text \<open>
  Claim C5, evaluated at failing inputs. With \<^verbatim>\<open>maxReconnectAttempts\<close> configured as 0, the
  code takes 10 instead: after a close with attempt count 0, which has reached the configured
  maximum, a reconnection is scheduled all the same (timer 1, 1000 ms). And with the default
  options, a reconnection whose socket reports an error and closes is followed by two
  scheduled attempts, one armed by the close handler before the attempt is counted and one by
  the \<^verbatim>\<open>catch\<close> of the timer callback after it: the delays scheduled in the run are 1000,
  1000, 2000, and two timers are pending at once.
\<close>

theorem C5_zero_maximum_and_double_scheduling:
  "maxReconnectAttempts (connection (mergedOptions
     (run sampleParseJSON [Connect, LookupDone 0 (LookupBody (Some 12345)), SocketOpen 0, SocketClose 0]
       (createClient ''xqc''
         (sampleOptions\<lparr>connection := (connection sampleOptions)\<lparr>maxReconnectAttempts := Some 0\<rparr>\<rparr>))))) =
     Some 0 \<and>
   reconnectAttempts
     (run sampleParseJSON [Connect, LookupDone 0 (LookupBody (Some 12345)), SocketOpen 0]
       (createClient ''xqc''
         (sampleOptions\<lparr>connection := (connection sampleOptions)\<lparr>maxReconnectAttempts := Some 0\<rparr>\<rparr>))) = 0 \<and>
   timeouts
     (run sampleParseJSON [Connect, LookupDone 0 (LookupBody (Some 12345)), SocketOpen 0, SocketClose 0]
       (createClient ''xqc''
         (sampleOptions\<lparr>connection := (connection sampleOptions)\<lparr>maxReconnectAttempts := Some 0\<rparr>\<rparr>))) = [1] \<and>
   last (effects
     (run sampleParseJSON [Connect, LookupDone 0 (LookupBody (Some 12345)), SocketOpen 0, SocketClose 0]
       (createClient ''xqc''
         (sampleOptions\<lparr>connection := (connection sampleOptions)\<lparr>maxReconnectAttempts := Some 0\<rparr>\<rparr>)))) =
     TimeoutSet 1 1000 \<and>
   List.map_filter (\<lambda>e. case e of TimeoutSet h d \<Rightarrow> Some d | _ \<Rightarrow> None)
     (effects (run sampleParseJSON
        [Subscribe ''error'' (Listener 1 False), SocketClose 0, ReconnectTimer 1,
         LookupDone 0 (LookupBody (Some 12345)), SocketError 1, SocketClose 1, RejectionCaught]
        connectedClient)) = [1000, 1000, 2000] \<and>
   timeouts (run sampleParseJSON
        [Subscribe ''error'' (Listener 1 False), SocketClose 0, ReconnectTimer 1,
         LookupDone 0 (LookupBody (Some 12345)), SocketError 1, SocketClose 1, RejectionCaught]
        connectedClient) = [2, 3] \<and>
   reconnectAttempts (run sampleParseJSON
        [Subscribe ''error'' (Listener 1 False), SocketClose 0, ReconnectTimer 1,
         LookupDone 0 (LookupBody (Some 12345)), SocketError 1, SocketClose 1, RejectionCaught]
        connectedClient) = 1"
proof -
  let ?s0 = "createClient ''xqc''
         (sampleOptions\<lparr>connection := (connection sampleOptions)\<lparr>maxReconnectAttempts := Some 0\<rparr>\<rparr>)"
  let ?s1 = "?s0\<lparr>connectionState := CONNECTING, lookups := [User],
      effects := [ConnectCalled User, Logged Info ''Connecting to channel:'',
         Logged Info ''Connection state changed to:'', StateChanged CONNECTING, LookupStarted]\<rparr>"
  let ?s2 = "?s1\<lparr>socket := Some 0, channelInfo := Some (12345, ''xqc''), lookups := [],
      sockets := [\<lparr>readyState = WS_CONNECTING, handlers = True, awaited_by = User, settled = False\<rparr>],
      effects := effects ?s1 @ [Logged Info ''Found chatroom ID'', SocketCreated 0]\<rparr>"
  let ?s3 = "?s2\<lparr>connectionState := CONNECTED,
      heartbeatTimer := Some 0,
      sockets := [\<lparr>readyState = WS_OPEN, handlers = True, awaited_by = User, settled = True\<rparr>],
      intervals := [0], nextHandle := 1,
      effects := effects ?s2 @ [Sent 0,
         Logged Info ''Connected to channel:'', Logged Info ''Connection state changed to:'',
         StateChanged CONNECTED, IntervalSet 0 30000, Resolved User]\<rparr>"
  let ?s4 = "?s3\<lparr>connectionState := DISCONNECTED, heartbeatTimer := None, reconnectTimer := Some 1,
      sockets := [\<lparr>readyState = WS_CLOSED, handlers = True, awaited_by = User, settled = True\<rparr>],
      intervals := [], timeouts := [1], nextHandle := 2,
      effects := effects ?s3 @ [IntervalCleared 0, Logged Warn ''Connection closed for channel:'',
         Logged Info ''Connection state changed to:'', StateChanged DISCONNECTED,
         Logged Info ''Scheduling reconnection attempt'', TimeoutSet 1 1000]\<rparr>"
  have 1: "step sampleParseJSON Connect ?s0 = ?s1" by (simp add: eval_defs)
  have 2: "step sampleParseJSON (LookupDone 0 (LookupBody (Some 12345))) ?s1 = ?s2"
    by (simp add: eval_defs)
  have 3: "step sampleParseJSON (SocketOpen 0) ?s2 = ?s3" by (simp add: eval_defs)
  have 4: "step sampleParseJSON (SocketClose 0) ?s3 = ?s4" by (simp add: eval_defs)
  have r3: "run sampleParseJSON [Connect, LookupDone 0 (LookupBody (Some 12345)), SocketOpen 0] ?s0 = ?s3"
    unfolding run_Cons run_Nil 1 2 3 ..
  have r4: "run sampleParseJSON [Connect, LookupDone 0 (LookupBody (Some 12345)), SocketOpen 0, SocketClose 0] ?s0 = ?s4"
    unfolding run_Cons run_Nil 1 2 3 4 ..
  let ?c = "(createClient ''xqc'' sampleOptions)
     \<lparr>socket := Some 0, channelInfo := Some (12345, ''xqc''), connectionState := CONNECTED,
      heartbeatTimer := Some 0,
      sockets := [\<lparr>readyState = WS_OPEN, handlers = True, awaited_by = User, settled = True\<rparr>],
      intervals := [0], nextHandle := 1,
      effects :=
        [ConnectCalled User, Logged Info ''Connecting to channel:'',
         Logged Info ''Connection state changed to:'', StateChanged CONNECTING, LookupStarted,
         Logged Info ''Found chatroom ID'', SocketCreated 0, Sent 0,
         Logged Info ''Connected to channel:'', Logged Info ''Connection state changed to:'',
         StateChanged CONNECTED, IntervalSet 0 30000, Resolved User]\<rparr>"
  let ?w0 = "\<lparr>readyState = WS_CLOSED, handlers = True, awaited_by = User, settled = True\<rparr>"
  let ?err = "\<lparr>err_type = WEBSOCKET, err_message = ''WebSocket connection error'', err_state = ERROR\<rparr>"
  let ?f1 = "[ConnectCalled User, Logged Info ''Connecting to channel:'',
         Logged Info ''Connection state changed to:'', StateChanged CONNECTING, LookupStarted,
         Logged Info ''Found chatroom ID'', SocketCreated 0, Sent 0,
         Logged Info ''Connected to channel:'', Logged Info ''Connection state changed to:'',
         StateChanged CONNECTED, IntervalSet 0 30000, Resolved User]"
  let ?f2 = "?f1 @ [IntervalCleared 0, Logged Warn ''Connection closed for channel:'',
         Logged Info ''Connection state changed to:'', StateChanged DISCONNECTED,
         Logged Info ''Scheduling reconnection attempt'', TimeoutSet 1 1000]"
  let ?f3 = "?f2 @ [ConnectCalled Scheduler, Logged Info ''Connecting to channel:'',
         Logged Info ''Connection state changed to:'', StateChanged CONNECTING, LookupStarted]"
  let ?f4 = "?f3 @ [Logged Info ''Found chatroom ID'', SocketCreated 1]"
  let ?f5 = "?f4 @ [Logged Info ''Connection state changed to:'', StateChanged ERROR,
         Logged Err ''KickClient Error'', ErrorReported ?err,
         Invoked ''error'' (Listener 1 False) (Failure ?err), Rejected Scheduler ?err]"
  let ?f6 = "?f5 @ [Logged Warn ''Connection closed for channel:'',
         Logged Info ''Connection state changed to:'', StateChanged DISCONNECTED,
         Logged Info ''Scheduling reconnection attempt'', TimeoutSet 2 1000]"
  let ?f7 = "?f6 @ [Logged Err ''Reconnection attempt failed'',
         Logged Info ''Scheduling reconnection attempt'', TimeoutSet 3 2000]"
  let ?t1 = "?c\<lparr>listeners := (\<lambda>ev. {})(''error'' := {Listener 1 False}),
      emitter := (\<lambda>ev. [])(''error'' := [On (Listener 1 False)])\<rparr>"
  let ?t2 = "?t1\<lparr>connectionState := DISCONNECTED, heartbeatTimer := None, reconnectTimer := Some 1,
      sockets := [?w0], intervals := [], timeouts := [1], nextHandle := 2, effects := ?f2\<rparr>"
  let ?t3 = "?t2\<lparr>connectionState := CONNECTING, reconnectTimer := None, timeouts := [],
      lookups := [Scheduler], effects := ?f3\<rparr>"
  let ?t4 = "?t3\<lparr>socket := Some 1, lookups := [],
      sockets := [?w0, \<lparr>readyState = WS_CONNECTING, handlers = True, awaited_by = Scheduler,
                        settled = False\<rparr>],
      effects := ?f4\<rparr>"
  let ?t5 = "?t4\<lparr>connectionState := ERROR, rejections := 1,
      sockets := [?w0, \<lparr>readyState = WS_CLOSING, handlers = True, awaited_by = Scheduler,
                        settled = True\<rparr>],
      effects := ?f5\<rparr>"
  let ?t6 = "?t5\<lparr>connectionState := DISCONNECTED, reconnectTimer := Some 2, timeouts := [2],
      nextHandle := 3,
      sockets := [?w0, \<lparr>readyState = WS_CLOSED, handlers = True, awaited_by = Scheduler,
                        settled = True\<rparr>],
      effects := ?f6\<rparr>"
  let ?t7 = "?t6\<lparr>rejections := 0, reconnectAttempts := 1, reconnectTimer := Some 3,
      timeouts := [2, 3], nextHandle := 4, effects := ?f7\<rparr>"
  have t1: "step sampleParseJSON (Subscribe ''error'' (Listener 1 False)) ?c = ?t1"
    by (simp add: eval_defs)
  have t2: "step sampleParseJSON (SocketClose 0) ?t1 = ?t2" by (simp add: eval_defs)
  have t3: "step sampleParseJSON (ReconnectTimer 1) ?t2 = ?t3" by (simp add: eval_defs)
  have t4: "step sampleParseJSON (LookupDone 0 (LookupBody (Some 12345))) ?t3 = ?t4"
    by (simp add: eval_defs)
  have t5: "step sampleParseJSON (SocketError 1) ?t4 = ?t5" by (simp add: eval_defs)
  have t6: "step sampleParseJSON (SocketClose 1) ?t5 = ?t6" by (simp add: eval_defs)
  have t7: "step sampleParseJSON RejectionCaught ?t6 = ?t7" by (simp add: eval_defs)
  have r7: "run sampleParseJSON
        [Subscribe ''error'' (Listener 1 False), SocketClose 0, ReconnectTimer 1,
         LookupDone 0 (LookupBody (Some 12345)), SocketError 1, SocketClose 1, RejectionCaught]
        connectedClient = ?t7"
    unfolding connected_client run_Cons run_Nil t1 t2 t3 t4 t5 t6 t7 ..
  have p: "List.map_filter (\<lambda>e. case e of TimeoutSet h d \<Rightarrow> Some d | _ \<Rightarrow> None) (effects ?t7) =
      [1000, 1000, 2000] \<and> timeouts ?t7 = [2, 3] \<and> reconnectAttempts ?t7 = 1"
    by (simp add: List.map_filter_def)
  show ?thesis unfolding r3 r4 r7 using p by (simp add: eval_defs)
qed

section \<open>Dispatch to subscribed callbacks\<close>

lemma fire_outcome:
  "fst (fire ev p r s) = (if raises (callback r) then Some CallbackRaised else None)"
  "effects (snd (fire ev p r s)) = effects s @ [Invoked ev (callback r) p]"
  by (cases r; simp add: invoke_def emits_def removeListener_def)+

lemma emit_loop_outcome:
  "effects (snd (emit_loop ev p rs s)) =
     effects s @ map (\<lambda>l. Invoked ev l p) (delivered (map callback rs)) \<and>
   fst (emit_loop ev p rs s) =
     (if list_ex raises (map callback rs) then Some CallbackRaised else None)"
proof (induction rs arbitrary: s)
  case Nil
  show ?case by simp
next
  case (Cons r rs)
  obtain x s1 where f: "fire ev p r s = (x, s1)" by (cases "fire ev p r s")
  have x: "x = (if raises (callback r) then Some CallbackRaised else None)"
    and e: "effects s1 = effects s @ [Invoked ev (callback r) p]"
    using fire_outcome [of ev p r s] f by simp_all
  show ?case
  proof (cases "raises (callback r)")
    case True
    with f x e show ?thesis by simp
  next
    case False
    with f x have "emit_loop ev p (r # rs) s = emit_loop ev p rs s1" by simp
    with Cons.IH [of s1] e False show ?thesis by simp
  qed
qed

lemma delivered_until_raise:
  "\<forall>x\<in>set pre. \<not> raises x \<Longrightarrow> raises l \<Longrightarrow> delivered (pre @ l # post) = pre @ [l]"
  by (induction pre) simp_all

lemma emit_raise:
  assumes "emitter s ev = pre @ r # post"
    and "\<forall>x\<in>set pre. \<not> raises (callback x)"
    and "raises (callback r)"
  shows "fst (emit ev p s) = Some CallbackRaised"
    "effects (snd (emit ev p s)) = effects s @ map (\<lambda>x. Invoked ev (callback x) p) (pre @ [r])"
proof -
  have "delivered (map callback (pre @ r # post)) = map callback pre @ [callback r]"
    using delivered_until_raise [of "map callback pre" "callback r" "map callback post"] assms(2,3)
    by simp
  moreover have "list_ex raises (map callback (pre @ r # post))"
    using assms(3) by (simp add: list_ex_iff)
  ultimately show "fst (emit ev p s) = Some CallbackRaised"
    "effects (snd (emit ev p s)) = effects s @ map (\<lambda>x. Invoked ev (callback x) p) (pre @ [r])"
    using emit_loop_outcome [of ev p "pre @ r # post" s] assms(1)
    by (simp_all add: emit_def)
qed

text \<open>The message handler dispatches every decoded event but the five of the protocol, with
  the decoded data, or for a \<^verbatim>\<open>ChatMessage\<close> under \<^verbatim>\<open>plainEmote\<close> with the rewritten data.\<close>

lemma route_dispatch:
  assumes "msg_type m \<notin> {''PusherConnectionEstablished'', ''PusherSubscriptionSucceeded'',
             ''PusherPong'', ''PusherPing'', ''PusherError''}"
    and "msg_type m = ''ChatMessage'' \<and> plainEmote (mergedOptions s) \<longrightarrow>
           rewriteContent (msg_data m) = Inr d"
    and "\<not> (msg_type m = ''ChatMessage'' \<and> plainEmote (mergedOptions s)) \<longrightarrow> d = msg_data m"
  shows "route m s = emit (msg_type m) (Data d) s"
  using assms by (auto simp add: route_def)

lemma onMessage_raise:
  assumes "emitter s ev = pre @ r # post"
    and "\<forall>x\<in>set pre. \<not> raises (callback x)"
    and "raises (callback r)"
    and "\<not> isDisconnected s"
    and "parseMessage parseJSON frame = (logs, Inr (Some m))"
    and "msg_type m = ev"
    and "ev \<notin> {''PusherConnectionEstablished'', ''PusherSubscriptionSucceeded'',
             ''PusherPong'', ''PusherPing'', ''PusherError''}"
    and "ev = ''ChatMessage'' \<and> plainEmote (mergedOptions s) \<longrightarrow>
           rewriteContent (msg_data m) = Inr d"
    and "\<not> (ev = ''ChatMessage'' \<and> plainEmote (mergedOptions s)) \<longrightarrow> d = msg_data m"
  shows "effects (onMessage parseJSON frame s) =
           effects s @ map (\<lambda>(lvl, msg). Logged lvl msg) logs @
           map (\<lambda>x. Invoked ev (callback x) (Data d)) (pre @ [r]) @
           Logged Err ''KickClient Error'' #
           (if onError (mergedOptions s) then
              [ErrorReported \<lparr>err_type = WEBSOCKET,
                 err_message = ''Failed to parse WebSocket message'',
                 err_state = connectionState s\<rparr>]
            else [])"
proof -
  let ?s1 = "s\<lparr>effects := effects s @ map (\<lambda>(lvl, msg). Logged lvl msg) logs\<rparr>"
  have em: "emitter ?s1 ev = pre @ r # post" using assms(1) by simp
  obtain x s2 where e: "emit ev (Data d) ?s1 = (x, s2)" by (cases "emit ev (Data d) ?s1")
  have x: "x = Some CallbackRaised"
    using emit_raise(1) [OF em assms(2,3), of "Data d"] e by simp
  have ef: "effects s2 = effects ?s1 @ map (\<lambda>x. Invoked ev (callback x) (Data d)) (pre @ [r])"
    using emit_raise(2) [OF em assms(2,3), of "Data d"] e by simp
  have o: "mergedOptions s2 = mergedOptions s" and c: "connectionState s2 = connectionState s"
    using emit_fields(6) [OF e] emit_fields(2) [OF e] by simp_all
  have "route m ?s1 = emit (msg_type m) (Data d) ?s1"
    by (rule route_dispatch) (use assms(6-9) in simp_all)
  then have r: "route m ?s1 = (Some CallbackRaised, s2)" using e x assms(6) by simp
  have "onMessage parseJSON frame s =
      handleError (createError WEBSOCKET ''Failed to parse WebSocket message'' s2) s2"
    using assms(4,5) r by (simp add: onMessage_def Let_def)
  then show ?thesis
    using ef o c by (simp add: handleError_def Let_def logger_def emits_def createError_def)
qed

text \<open>
  Claim C9, as amended. When a callback raises during the dispatch of an event, the dispatch
  stops there: the callbacks registered before it and the raising callback itself have been
  invoked with the payload, in order of registration; no callback registered after it is
  invoked, and the exception leaves the dispatch. When the dispatch is that of the message
  handler (for a frame decoded to an event that is not one of the five protocol events,
  on a client not disconnected), the handler catches the exception and reports it as a
  WebsocketError: after the callbacks invoked it logs the error and, when \<^verbatim>\<open>onError\<close> is
  configured, passes it the error with the message \<^verbatim>\<open>Failed to parse WebSocket message\<close>.
\<close>

theorem C9_dispatch_stops_at_first_raise:
  assumes "emitter s ev = pre @ r # post"
    and "\<forall>x\<in>set pre. \<not> raises (callback x)"
    and "raises (callback r)"
  shows "fst (emit ev p s) = Some CallbackRaised \<and>
         effects (snd (emit ev p s)) =
           effects s @ map (\<lambda>x. Invoked ev (callback x) p) (pre @ [r]) \<and>
         (\<forall>parseJSON frame logs m d.
            \<not> isDisconnected s \<and> parseMessage parseJSON frame = (logs, Inr (Some m)) \<and>
            msg_type m = ev \<and>
            ev \<notin> {''PusherConnectionEstablished'', ''PusherSubscriptionSucceeded'',
                    ''PusherPong'', ''PusherPing'', ''PusherError''} \<and>
            (ev = ''ChatMessage'' \<and> plainEmote (mergedOptions s) \<longrightarrow>
               rewriteContent (msg_data m) = Inr d) \<and>
            (\<not> (ev = ''ChatMessage'' \<and> plainEmote (mergedOptions s)) \<longrightarrow> d = msg_data m) \<longrightarrow>
            effects (onMessage parseJSON frame s) =
              effects s @ map (\<lambda>(lvl, msg). Logged lvl msg) logs @
              map (\<lambda>x. Invoked ev (callback x) (Data d)) (pre @ [r]) @
              Logged Err ''KickClient Error'' #
              (if onError (mergedOptions s) then
                 [ErrorReported \<lparr>err_type = WEBSOCKET,
                    err_message = ''Failed to parse WebSocket message'',
                    err_state = connectionState s\<rparr>]
               else []))"
proof (intro conjI allI impI)
  show "fst (emit ev p s) = Some CallbackRaised"
    by (rule emit_raise(1) [OF assms])
  show "effects (snd (emit ev p s)) =
      effects s @ map (\<lambda>x. Invoked ev (callback x) p) (pre @ [r])"
    by (rule emit_raise(2) [OF assms])
next
  fix parseJSON frame logs m d
  assume h: "\<not> isDisconnected s \<and> parseMessage parseJSON frame = (logs, Inr (Some m)) \<and>
            msg_type m = ev \<and>
            ev \<notin> {''PusherConnectionEstablished'', ''PusherSubscriptionSucceeded'',
                    ''PusherPong'', ''PusherPing'', ''PusherError''} \<and>
            (ev = ''ChatMessage'' \<and> plainEmote (mergedOptions s) \<longrightarrow>
               rewriteContent (msg_data m) = Inr d) \<and>
            (\<not> (ev = ''ChatMessage'' \<and> plainEmote (mergedOptions s)) \<longrightarrow> d = msg_data m)"
  show "effects (onMessage parseJSON frame s) =
              effects s @ map (\<lambda>(lvl, msg). Logged lvl msg) logs @
              map (\<lambda>x. Invoked ev (callback x) (Data d)) (pre @ [r]) @
              Logged Err ''KickClient Error'' #
              (if onError (mergedOptions s) then
                 [ErrorReported \<lparr>err_type = WEBSOCKET,
                    err_message = ''Failed to parse WebSocket message'',
                    err_state = connectionState s\<rparr>]
               else [])"
    using h by (elim conjE) (rule onMessage_raise [OF assms], assumption+)
qed

lemma sample_subscription:
  "parseMessage sampleParseJSON subscriptionFrame =
     ([], Inr (Some \<lparr>msg_type = ''Subscription'', msg_data = JObj []\<rparr>))"
proof -
  have "sampleParseJSON (JStr subscriptionFrame) =
      Inr (JObj [(''event'', JStr (appEvent ''SubscriptionEvent'')), (''data'', JStr ''{}'')])"
    by (simp add: sample_defs appEvent_def)
  then show ?thesis
    by (simp add: parseMessage_def parseMessage_try_def decodeAs_def get_prop_def sample_empty)
qed

theorem C9_dispatch_stops_at_first_raise_witness:
  "fst (emit ''Subscription'' (Data (JObj []))
     (run sampleParseJSON
        [Subscribe ''Subscription'' (Listener 1 True), Subscribe ''Subscription'' (Listener 2 False)]
        (createClient ''xqc'' sampleOptions))) = Some CallbackRaised \<and>
   effects (snd (emit ''Subscription'' (Data (JObj []))
     (run sampleParseJSON
        [Subscribe ''Subscription'' (Listener 1 True), Subscribe ''Subscription'' (Listener 2 False)]
        (createClient ''xqc'' sampleOptions)))) =
     [Invoked ''Subscription'' (Listener 1 True) (Data (JObj []))] \<and>
   effects (onMessage sampleParseJSON subscriptionFrame
     (run sampleParseJSON
        [Subscribe ''Subscription'' (Listener 1 True), Subscribe ''Subscription'' (Listener 2 False)]
        (createClient ''xqc'' sampleOptions))) =
     [Invoked ''Subscription'' (Listener 1 True) (Data (JObj [])),
      Logged Err ''KickClient Error'',
      ErrorReported \<lparr>err_type = WEBSOCKET, err_message = ''Failed to parse WebSocket message'',
                      err_state = DISCONNECTED\<rparr>]"
proof -
  let ?s = "run sampleParseJSON
        [Subscribe ''Subscription'' (Listener 1 True), Subscribe ''Subscription'' (Listener 2 False)]
        (createClient ''xqc'' sampleOptions)"
  have e: "emitter ?s ''Subscription'' = [] @ On (Listener 1 True) # [On (Listener 2 False)]"
    by (simp add: run_Cons run_Nil eval_defs)
  have f: "effects ?s = [] \<and> \<not> isDisconnected ?s \<and> onError (mergedOptions ?s) \<and>
      \<not> plainEmote (mergedOptions ?s) \<and> connectionState ?s = DISCONNECTED"
    by (simp add: run_Cons run_Nil eval_defs)
  have a: "\<forall>x\<in>set []. \<not> raises (callback x)" by simp
  have b: "raises (callback (On (Listener 1 True)))" by simp
  have n: "''Subscription'' \<notin> {''PusherConnectionEstablished'', ''PusherSubscriptionSucceeded'',
                    ''PusherPong'', ''PusherPing'', ''PusherError''}"
    by simp
  note t = C9_dispatch_stops_at_first_raise [OF e a b, of "Data (JObj [])"]
  note u = t [THEN conjunct2, THEN conjunct2, rule_format, where parseJSON = sampleParseJSON
      and frame = subscriptionFrame and logs = "[]"
      and m = "\<lparr>msg_type = ''Subscription'', msg_data = JObj []\<rparr>" and d = "JObj []"]
  have "effects (onMessage sampleParseJSON subscriptionFrame ?s) =
      effects ?s @ map (\<lambda>(lvl, msg). Logged lvl msg) [] @
      map (\<lambda>x. Invoked ''Subscription'' (callback x) (Data (JObj []))) ([] @ [On (Listener 1 True)]) @
      Logged Err ''KickClient Error'' #
      (if onError (mergedOptions ?s) then
         [ErrorReported \<lparr>err_type = WEBSOCKET,
            err_message = ''Failed to parse WebSocket message'',
            err_state = connectionState ?s\<rparr>]
       else [])"
    by (rule u) (use f n sample_subscription in simp)
  with t f show ?thesis by simp
qed

text \<open>
  Claim C9 as stated fails: with two callbacks subscribed to the same event, the first of
  which raises, a frame of that event reaches the first callback only; the message handler
  catches the exception and reports it, and the second callback is never invoked.
\<close>

theorem C9_counterexample:
  "effects (run sampleParseJSON
      [Subscribe ''Subscription'' (Listener 1 True), Subscribe ''Subscription'' (Listener 2 False),
       SocketMessage 0 subscriptionFrame] connectedClient) =
     effects connectedClient @
       [Invoked ''Subscription'' (Listener 1 True) (Data (JObj [])),
        Logged Err ''KickClient Error'',
        ErrorReported \<lparr>err_type = WEBSOCKET, err_message = ''Failed to parse WebSocket message'',
                        err_state = CONNECTED\<rparr>] \<and>
   Invoked ''Subscription'' (Listener 2 False) (Data (JObj [])) \<notin>
     set (effects (run sampleParseJSON
      [Subscribe ''Subscription'' (Listener 1 True), Subscribe ''Subscription'' (Listener 2 False),
       SocketMessage 0 subscriptionFrame] connectedClient))"
proof -
  let ?c = "(createClient ''xqc'' sampleOptions)
     \<lparr>socket := Some 0, channelInfo := Some (12345, ''xqc''), connectionState := CONNECTED,
      heartbeatTimer := Some 0,
      sockets := [\<lparr>readyState = WS_OPEN, handlers = True, awaited_by = User, settled = True\<rparr>],
      intervals := [0], nextHandle := 1,
      effects :=
        [ConnectCalled User, Logged Info ''Connecting to channel:'',
         Logged Info ''Connection state changed to:'', StateChanged CONNECTING, LookupStarted,
         Logged Info ''Found chatroom ID'', SocketCreated 0, Sent 0,
         Logged Info ''Connected to channel:'', Logged Info ''Connection state changed to:'',
         StateChanged CONNECTED, IntervalSet 0 30000, Resolved User]\<rparr>"
  let ?s2 = "?c\<lparr>listeners := (\<lambda>ev. {})(''Subscription'' := {Listener 2 False, Listener 1 True}),
      emitter := (\<lambda>ev. [])(''Subscription'' := [On (Listener 1 True), On (Listener 2 False)])\<rparr>"
  have 2: "step sampleParseJSON (Subscribe ''Subscription'' (Listener 2 False))
             (step sampleParseJSON (Subscribe ''Subscription'' (Listener 1 True)) ?c) = ?s2"
    by (simp add: eval_defs)
  have 3: "step sampleParseJSON (SocketMessage 0 subscriptionFrame) ?s2 =
      ?s2\<lparr>effects := effects ?c @
       [Invoked ''Subscription'' (Listener 1 True) (Data (JObj [])),
        Logged Err ''KickClient Error'',
        ErrorReported \<lparr>err_type = WEBSOCKET, err_message = ''Failed to parse WebSocket message'',
                        err_state = CONNECTED\<rparr>]\<rparr>"
    by (simp add: eval_defs sample_subscription)
  show ?thesis unfolding connected_client run_Cons run_Nil 2 3 by (simp add: eval_defs)
qed

section \<open>Frames that fail to decode\<close>

lemma parseMessage_failed:
  "snd (parseMessage_try pj frame) = Inl e \<Longrightarrow>
   parseMessage pj frame =
     (fst (parseMessage_try pj frame) @ [(Err, ''Error parsing message:'')], Inr None)"
  by (cases "parseMessage_try pj frame") (simp add: parseMessage_def)

text \<open>
  Claim C2, as amended. For every frame whose decoding fails, the failure is caught for that
  frame alone, inside parseMessage, and logged at error level; the message handler drops the
  frame. The connection is not torn down: the handler changes nothing of the client but the
  log, so the socket, the connection state and the heartbeat are as before the frame.
\<close>

theorem C2_failed_frame_is_dropped:
  assumes "snd (parseMessage_try pj frame) = Inl e"
  shows "step pj (SocketMessage sid frame) s =
           (if sid < length (sockets s) \<and> handlers (sockets s ! sid) \<and>
               (readyState (sockets s ! sid) = WS_OPEN \<or> readyState (sockets s ! sid) = WS_CLOSING) \<and>
               \<not> isDisconnected s
            then s\<lparr>effects := effects s @
                    map (\<lambda>(lvl, msg). Logged lvl msg) (fst (parseMessage_try pj frame)) @
                    [Logged Err ''Error parsing message:'']\<rparr>
            else s) \<and>
         socket (step pj (SocketMessage sid frame) s) = socket s \<and>
         sockets (step pj (SocketMessage sid frame) s) = sockets s \<and>
         connectionState (step pj (SocketMessage sid frame) s) = connectionState s \<and>
         heartbeatTimer (step pj (SocketMessage sid frame) s) = heartbeatTimer s \<and>
         intervals (step pj (SocketMessage sid frame) s) = intervals s"
proof -
  have "onMessage pj frame s =
          (if isDisconnected s then s
           else s\<lparr>effects := effects s @
                    map (\<lambda>(lvl, msg). Logged lvl msg) (fst (parseMessage_try pj frame)) @
                    [Logged Err ''Error parsing message:'']\<rparr>)"
    by (simp add: onMessage_def parseMessage_failed [OF assms])
  then show ?thesis by (simp add: step_def)
qed

theorem C2_failed_frame_is_dropped_witness:
  "snd (parseMessage_try sampleParseJSON ''not json'') = Inl SyntaxError \<and>
   step sampleParseJSON (SocketMessage 0 ''not json'') connectedClient =
     connectedClient\<lparr>effects := effects connectedClient @ [Logged Err ''Error parsing message:'']\<rparr> \<and>
   connectionState (step sampleParseJSON (SocketMessage 0 ''not json'') connectedClient) = CONNECTED \<and>
   heartbeatTimer (step sampleParseJSON (SocketMessage 0 ''not json'') connectedClient) = Some 0"
proof -
  have f: "parseMessage_try sampleParseJSON ''not json'' = ([], Inl SyntaxError)"
    by (simp add: parseMessage_try_def sample_not_json)
  then have h: "snd (parseMessage_try sampleParseJSON ''not json'') = Inl SyntaxError" by simp
  have c: "0 < length (sockets connectedClient) \<and> handlers (sockets connectedClient ! 0) \<and>
      readyState (sockets connectedClient ! 0) = WS_OPEN \<and> \<not> isDisconnected connectedClient \<and>
      connectionState connectedClient = CONNECTED \<and> heartbeatTimer connectedClient = Some 0"
    unfolding connected_client by (simp add: eval_defs)
  from C2_failed_frame_is_dropped [OF h, of 0 connectedClient] c f h
  show ?thesis by simp
qed

text \<open>
  Claim C2 as stated fails: with an error callback configured, a frame that is not JSON adds
  one line to the log and nothing else; the error callback is not called.
\<close>

theorem C2_counterexample:
  "onError (mergedOptions connectedClient) \<and>
   snd (parseMessage_try sampleParseJSON ''not json'') = Inl SyntaxError \<and>
   effects (step sampleParseJSON (SocketMessage 0 ''not json'') connectedClient) =
     effects connectedClient @ [Logged Err ''Error parsing message:''] \<and>
   ErrorReported \<lparr>err_type = WEBSOCKET, err_message = ''Failed to parse WebSocket message'',
                   err_state = CONNECTED\<rparr> \<notin>
     set (effects (step sampleParseJSON (SocketMessage 0 ''not json'') connectedClient))"
proof -
  have f: "parseMessage sampleParseJSON ''not json'' = ([(Err, ''Error parsing message:'')], Inr None)"
    by (simp add: parseMessage_def parseMessage_try_def sample_not_json)
  have g: "snd (parseMessage_try sampleParseJSON ''not json'') = Inl SyntaxError"
    by (simp add: parseMessage_try_def sample_not_json)
  show ?thesis unfolding connected_client using g by (simp add: eval_defs f)
qed

section \<open>Invariants of the reachable states\<close>




lemma after_disconnect: "at_rest (run pj evs (disconnect s0))"
  by (rule run_at_rest) simp




section \<open>The channel identity\<close>










section \<open>After an explicit disconnect\<close>

lemma stale_open:
  assumes "isDisconnected s"
  shows "step pj (SocketOpen sid) s = s \<or>
         step pj (SocketOpen sid) s = setReadyState sid WS_OPEN s \<or>
         step pj (SocketOpen sid) s =
           (setReadyState sid WS_OPEN s)
             \<lparr>effects := effects s @
                [Sent sid, Logged Debug ''Connection opened but client is disconnected, ignoring'']\<rparr>"
  using assms by (simp add: step_def Let_def onOpen_def logger_def emits_def setReadyState_def)

lemma stale_open_fields:
  assumes "isDisconnected s"
  shows "connectionState (step pj (SocketOpen sid) s) = connectionState s"
    "heartbeatTimer (step pj (SocketOpen sid) s) = heartbeatTimer s"
    "intervals (step pj (SocketOpen sid) s) = intervals s"
    "reconnectAttempts (step pj (SocketOpen sid) s) = reconnectAttempts s"
    "emitter (step pj (SocketOpen sid) s) = emitter s"
    "Invoked ''ready'' l p \<notin> set (drop (length (effects s)) (effects (step pj (SocketOpen sid) s)))"
  using assms by (simp_all add: step_def Let_def onOpen_def logger_def emits_def setReadyState_def)

lemma lookupDone_stays_disconnected:
  assumes "isDisconnected s"
  shows "isDisconnected (lookupDone k res s)"
proof (cases "k < length (lookups s) \<and> (\<exists>i. res = LookupBody (Some i) \<and> i \<noteq> 0)")
  case True
  then obtain i where i: "res = LookupBody (Some i)" "i \<noteq> 0" "k < length (lookups s)" by blast
  show ?thesis
  proof (cases "websocket (mergedOptions s)")
    case Accepted
    with assms i show ?thesis by (simp add: lookupDone_def Let_def)
  next
    case Refused
    with assms i show ?thesis by (simp add: lookupDone_def Let_def)
  qed
next
  case False
  with assms show ?thesis
    by (auto simp add: lookupDone_def Let_def split: lookup.splits option.splits)
qed

lemma step_stays_disconnected: "isDisconnected s \<Longrightarrow> isDisconnected (step pj e s)"
  by (cases e)
     (simp_all add: step_def Let_def handler_fields lookupDone_stays_disconnected)

lemma run_stays_disconnected: "isDisconnected s \<Longrightarrow> isDisconnected (run pj evs s)"
  by (induction evs rule: rev_induct) (simp_all add: run_Nil run_snoc step_stays_disconnected)

text \<open>
  Claim C10. After disconnect() has been called, in every state that follows, the client is
  marked disconnected, the state is not Connected and no heartbeat timer is active. A
  transport open event that arrives then is ignored: it changes the socket's readyState and,
  where the handler is still registered, writes a debug line after the subscription was sent;
  the connection state stays as it was, no heartbeat interval is started, the subscribed
  callbacks are untouched and none is invoked (no ready event), and the reconnect attempt
  counter keeps its value. However disconnect() was called (also from the state-change
  callback, in the middle of a handler), the mark it sets is never reset, and an open event
  in a state with the mark changes neither the connection state, nor the heartbeat timer and
  the intervals, nor the attempt counter, nor the subscribed callbacks, and emits no ready
  event.
\<close>

theorem C10_stale_open_ignored:
  assumes "s = run pj evs (disconnect s0)"
  shows "isDisconnected s \<and> connectionState s \<noteq> CONNECTED \<and> heartbeatTimer s = None \<and>
         (step pj (SocketOpen sid) s = s \<or>
          step pj (SocketOpen sid) s = setReadyState sid WS_OPEN s \<or>
          step pj (SocketOpen sid) s =
            (setReadyState sid WS_OPEN s)
              \<lparr>effects := effects s @
                 [Sent sid, Logged Debug ''Connection opened but client is disconnected, ignoring'']\<rparr>) \<and>
         connectionState (step pj (SocketOpen sid) s) = connectionState s \<and>
         heartbeatTimer (step pj (SocketOpen sid) s) = None \<and>
         intervals (step pj (SocketOpen sid) s) = intervals s \<and>
         reconnectAttempts (step pj (SocketOpen sid) s) = reconnectAttempts s \<and>
         emitter (step pj (SocketOpen sid) s) = emitter s \<and>
         Invoked ''ready'' l p \<notin> set (drop (length (effects s)) (effects (step pj (SocketOpen sid) s))) \<and>
         (\<forall>t. isDisconnected t \<longrightarrow>
            isDisconnected (run pj evs' t) \<and>
            connectionState (step pj (SocketOpen sid) t) = connectionState t \<and>
            heartbeatTimer (step pj (SocketOpen sid) t) = heartbeatTimer t \<and>
            intervals (step pj (SocketOpen sid) t) = intervals t \<and>
            reconnectAttempts (step pj (SocketOpen sid) t) = reconnectAttempts t \<and>
            emitter (step pj (SocketOpen sid) t) = emitter t \<and>
            Invoked ''ready'' l p \<notin>
              set (drop (length (effects t)) (effects (step pj (SocketOpen sid) t))))"
proof -
  have r: "at_rest s" unfolding assms by (rule after_disconnect)
  then have d: "isDisconnected s" by blast
  have a: "connectionState s \<noteq> CONNECTED \<and> heartbeatTimer s = None" using r by blast
  note f = stale_open_fields [OF d, where pj = pj and sid = sid]
  have h: "heartbeatTimer (step pj (SocketOpen sid) s) = None" using f(2) a by simp
  have g: "\<forall>t. isDisconnected t \<longrightarrow>
            isDisconnected (run pj evs' t) \<and>
            connectionState (step pj (SocketOpen sid) t) = connectionState t \<and>
            heartbeatTimer (step pj (SocketOpen sid) t) = heartbeatTimer t \<and>
            intervals (step pj (SocketOpen sid) t) = intervals t \<and>
            reconnectAttempts (step pj (SocketOpen sid) t) = reconnectAttempts t \<and>
            emitter (step pj (SocketOpen sid) t) = emitter t \<and>
            Invoked ''ready'' l p \<notin>
              set (drop (length (effects t)) (effects (step pj (SocketOpen sid) t)))"
    using stale_open_fields(1-5) [where pj = pj and sid = sid]
      stale_open_fields(6) [where pj = pj and sid = sid and l = l and p = p]
      run_stays_disconnected [where pj = pj and evs = evs']
    by blast
  have m: "isDisconnected s \<and> connectionState s \<noteq> CONNECTED \<and> heartbeatTimer s = None \<and>
         (step pj (SocketOpen sid) s = s \<or>
          step pj (SocketOpen sid) s = setReadyState sid WS_OPEN s \<or>
          step pj (SocketOpen sid) s =
            (setReadyState sid WS_OPEN s)
              \<lparr>effects := effects s @
                 [Sent sid, Logged Debug ''Connection opened but client is disconnected, ignoring'']\<rparr>) \<and>
         connectionState (step pj (SocketOpen sid) s) = connectionState s \<and>
         heartbeatTimer (step pj (SocketOpen sid) s) = None \<and>
         intervals (step pj (SocketOpen sid) s) = intervals s \<and>
         reconnectAttempts (step pj (SocketOpen sid) s) = reconnectAttempts s \<and>
         emitter (step pj (SocketOpen sid) s) = emitter s \<and>
         Invoked ''ready'' l p \<notin> set (drop (length (effects s)) (effects (step pj (SocketOpen sid) s)))"
    using d a stale_open [OF d, where pj = pj and sid = sid] f(1) h f(3) f(4) f(5)
      f(6) [where l = l and p = p] by blast
  from m g show ?thesis by blast
qed


theorem C10_stale_open_ignored_witness:
  "isDisconnected (run sampleParseJSON [Connect, LookupDone 0 (LookupBody (Some 12345))]
      (disconnect connectedClient)) \<and>
   effects (step sampleParseJSON (SocketOpen 1)
     (run sampleParseJSON [Connect, LookupDone 0 (LookupBody (Some 12345))]
        (disconnect connectedClient))) =
     effects (run sampleParseJSON [Connect, LookupDone 0 (LookupBody (Some 12345))]
        (disconnect connectedClient)) @
     [Sent 1, Logged Debug ''Connection opened but client is disconnected, ignoring''] \<and>
   connectionState (step sampleParseJSON (SocketOpen 1)
     (run sampleParseJSON [Connect, LookupDone 0 (LookupBody (Some 12345))]
        (disconnect connectedClient))) = CONNECTING \<and>
   heartbeatTimer (step sampleParseJSON (SocketOpen 1)
     (run sampleParseJSON [Connect, LookupDone 0 (LookupBody (Some 12345))]
        (disconnect connectedClient))) = None"
proof -
  let ?c = "(createClient ''xqc'' sampleOptions)
     \<lparr>socket := Some 0, channelInfo := Some (12345, ''xqc''), connectionState := CONNECTED,
      heartbeatTimer := Some 0,
      sockets := [\<lparr>readyState = WS_OPEN, handlers = True, awaited_by = User, settled = True\<rparr>],
      intervals := [0], nextHandle := 1,
      effects :=
        [ConnectCalled User, Logged Info ''Connecting to channel:'',
         Logged Info ''Connection state changed to:'', StateChanged CONNECTING, LookupStarted,
         Logged Info ''Found chatroom ID'', SocketCreated 0, Sent 0,
         Logged Info ''Connected to channel:'', Logged Info ''Connection state changed to:'',
         StateChanged CONNECTED, IntervalSet 0 30000, Resolved User]\<rparr>"
  let ?w0 = "\<lparr>readyState = WS_CLOSING, handlers = False, awaited_by = User, settled = True\<rparr>"
  let ?e0 = "[ConnectCalled User, Logged Info ''Connecting to channel:'',
         Logged Info ''Connection state changed to:'', StateChanged CONNECTING, LookupStarted,
         Logged Info ''Found chatroom ID'', SocketCreated 0, Sent 0,
         Logged Info ''Connected to channel:'', Logged Info ''Connection state changed to:'',
         StateChanged CONNECTED, IntervalSet 0 30000, Resolved User,
         Logged Info ''Disconnecting client...'',
         Logged Info ''Connection state changed to:'', StateChanged DISCONNECTED,
         IntervalCleared 0, CloseCalled 0, Logged Info ''Client disconnected and cleaned up'']"
  let ?e1 = "?e0 @ [ConnectCalled User, Logged Info ''Connecting to channel:'',
         Logged Info ''Connection state changed to:'', StateChanged CONNECTING, LookupStarted]"
  let ?e2 = "?e1 @ [Logged Info ''Found chatroom ID'', SocketCreated 1]"
  let ?d = "?c\<lparr>isDisconnected := True, connectionState := DISCONNECTED, heartbeatTimer := None,
      intervals := [], socket := None, channelInfo := None, sockets := [?w0], effects := ?e0\<rparr>"
  let ?s1 = "?d\<lparr>connectionState := CONNECTING, lookups := [User], effects := ?e1\<rparr>"
  let ?s2 = "?s1\<lparr>socket := Some 1, channelInfo := Some (12345, ''xqc''), lookups := [],
      sockets := [?w0, \<lparr>readyState = WS_CONNECTING, handlers = True, awaited_by = User,
                         settled = False\<rparr>],
      effects := ?e2\<rparr>"
  let ?s3 = "?s2\<lparr>
      sockets := [?w0, \<lparr>readyState = WS_OPEN, handlers = True, awaited_by = User,
                         settled = False\<rparr>],
      effects := ?e2 @
        [Sent 1, Logged Debug ''Connection opened but client is disconnected, ignoring'']\<rparr>"
  have 0: "disconnect ?c = ?d" by (simp add: eval_defs)
  have 1: "step sampleParseJSON Connect ?d = ?s1" by (simp add: eval_defs)
  have 2: "step sampleParseJSON (LookupDone 0 (LookupBody (Some 12345))) ?s1 = ?s2"
    by (simp add: eval_defs)
  have 3: "step sampleParseJSON (SocketOpen 1) ?s2 = ?s3" by (simp add: eval_defs)
  have r: "run sampleParseJSON [Connect, LookupDone 0 (LookupBody (Some 12345))]
      (disconnect connectedClient) = ?s2"
    unfolding connected_client 0 run_Cons run_Nil 1 2 ..
  have "isDisconnected ?s2 \<and> heartbeatTimer (step sampleParseJSON (SocketOpen 1) ?s2) = None"
    using C10_stale_open_ignored [OF r [symmetric], where sid = 1 and l = "Listener 0 False"
        and p = NoArgs]
    by blast
  then show ?thesis unfolding r 3 by simp
qed

section \<open>A reconnection timer that outlives disconnect\<close>

text \<open>
  Claim C4, evaluated at a failing input. The application listens to \<^verbatim>\<open>error\<close>, connects,
  and the connection drops; the scheduled reconnection gets a socket that reports an error and
  closes. The close handler arms a timer (handle 2), then the \<^verbatim>\<open>catch\<close> of the timer
  callback arms another (handle 3) over it. disconnect() clears the timer it knows of (3);
  timer 2 stays armed, fires, and its callback calls connect().
\<close>

theorem C4_orphaned_timer_reconnects:
  "isDisconnected (run sampleParseJSON
      [SocketClose 0, ReconnectTimer 1, LookupDone 0 (LookupBody (Some 12345)), SocketError 1,
       SocketClose 1, RejectionCaught, Disconnect]
      (run sampleParseJSON [Subscribe ''error'' (Listener 1 False)] connectedClient)) \<and>
   reconnectTimer (run sampleParseJSON
      [SocketClose 0, ReconnectTimer 1, LookupDone 0 (LookupBody (Some 12345)), SocketError 1,
       SocketClose 1, RejectionCaught, Disconnect]
      (run sampleParseJSON [Subscribe ''error'' (Listener 1 False)] connectedClient)) = None \<and>
   timeouts (run sampleParseJSON
      [SocketClose 0, ReconnectTimer 1, LookupDone 0 (LookupBody (Some 12345)), SocketError 1,
       SocketClose 1, RejectionCaught, Disconnect]
      (run sampleParseJSON [Subscribe ''error'' (Listener 1 False)] connectedClient)) = [2] \<and>
   effects (run sampleParseJSON
      [SocketClose 0, ReconnectTimer 1, LookupDone 0 (LookupBody (Some 12345)), SocketError 1,
       SocketClose 1, RejectionCaught, Disconnect, ReconnectTimer 2]
      (run sampleParseJSON [Subscribe ''error'' (Listener 1 False)] connectedClient)) =
     effects (run sampleParseJSON
      [SocketClose 0, ReconnectTimer 1, LookupDone 0 (LookupBody (Some 12345)), SocketError 1,
       SocketClose 1, RejectionCaught, Disconnect]
      (run sampleParseJSON [Subscribe ''error'' (Listener 1 False)] connectedClient)) @
     [ConnectCalled Scheduler, Logged Info ''Connecting to channel:'',
      Logged Info ''Connection state changed to:'', StateChanged CONNECTING, LookupStarted]"
proof -
  let ?c = "(createClient ''xqc'' sampleOptions)
     \<lparr>socket := Some 0, channelInfo := Some (12345, ''xqc''), connectionState := CONNECTED,
      heartbeatTimer := Some 0,
      sockets := [\<lparr>readyState = WS_OPEN, handlers = True, awaited_by = User, settled = True\<rparr>],
      intervals := [0], nextHandle := 1,
      effects :=
        [ConnectCalled User, Logged Info ''Connecting to channel:'',
         Logged Info ''Connection state changed to:'', StateChanged CONNECTING, LookupStarted,
         Logged Info ''Found chatroom ID'', SocketCreated 0, Sent 0,
         Logged Info ''Connected to channel:'', Logged Info ''Connection state changed to:'',
         StateChanged CONNECTED, IntervalSet 0 30000, Resolved User]\<rparr>"
  let ?w0 = "\<lparr>readyState = WS_CLOSED, handlers = True, awaited_by = User, settled = True\<rparr>"
  let ?err = "\<lparr>err_type = WEBSOCKET, err_message = ''WebSocket connection error'', err_state = ERROR\<rparr>"
  let ?e1 = "[ConnectCalled User, Logged Info ''Connecting to channel:'',
         Logged Info ''Connection state changed to:'', StateChanged CONNECTING, LookupStarted,
         Logged Info ''Found chatroom ID'', SocketCreated 0, Sent 0,
         Logged Info ''Connected to channel:'', Logged Info ''Connection state changed to:'',
         StateChanged CONNECTED, IntervalSet 0 30000, Resolved User]"
  let ?e2 = "?e1 @ [IntervalCleared 0, Logged Warn ''Connection closed for channel:'',
         Logged Info ''Connection state changed to:'', StateChanged DISCONNECTED,
         Logged Info ''Scheduling reconnection attempt'', TimeoutSet 1 1000]"
  let ?e3 = "?e2 @ [ConnectCalled Scheduler, Logged Info ''Connecting to channel:'',
         Logged Info ''Connection state changed to:'', StateChanged CONNECTING, LookupStarted]"
  let ?e4 = "?e3 @ [Logged Info ''Found chatroom ID'', SocketCreated 1]"
  let ?e5 = "?e4 @ [Logged Info ''Connection state changed to:'', StateChanged ERROR,
         Logged Err ''KickClient Error'', ErrorReported ?err,
         Invoked ''error'' (Listener 1 False) (Failure ?err), Rejected Scheduler ?err]"
  let ?e6 = "?e5 @ [Logged Warn ''Connection closed for channel:'',
         Logged Info ''Connection state changed to:'', StateChanged DISCONNECTED,
         Logged Info ''Scheduling reconnection attempt'', TimeoutSet 2 1000]"
  let ?e7 = "?e6 @ [Logged Err ''Reconnection attempt failed'',
         Logged Info ''Scheduling reconnection attempt'', TimeoutSet 3 2000]"
  let ?e8 = "?e7 @ [Logged Info ''Disconnecting client...'', TimeoutCleared 3,
         Logged Info ''Client disconnected and cleaned up'']"
  let ?e9 = "?e8 @ [ConnectCalled Scheduler, Logged Info ''Connecting to channel:'',
         Logged Info ''Connection state changed to:'', StateChanged CONNECTING, LookupStarted]"
  let ?s1 = "?c\<lparr>listeners := (\<lambda>ev. {})(''error'' := {Listener 1 False}),
      emitter := (\<lambda>ev. [])(''error'' := [On (Listener 1 False)])\<rparr>"
  let ?s2 = "?s1\<lparr>connectionState := DISCONNECTED, heartbeatTimer := None, reconnectTimer := Some 1,
      sockets := [?w0], intervals := [], timeouts := [1], nextHandle := 2, effects := ?e2\<rparr>"
  let ?s3 = "?s2\<lparr>connectionState := CONNECTING, reconnectTimer := None, timeouts := [],
      lookups := [Scheduler], effects := ?e3\<rparr>"
  let ?s4 = "?s3\<lparr>socket := Some 1, lookups := [],
      sockets := [?w0, \<lparr>readyState = WS_CONNECTING, handlers = True, awaited_by = Scheduler,
                        settled = False\<rparr>],
      effects := ?e4\<rparr>"
  let ?s5 = "?s4\<lparr>connectionState := ERROR, rejections := 1,
      sockets := [?w0, \<lparr>readyState = WS_CLOSING, handlers = True, awaited_by = Scheduler,
                        settled = True\<rparr>],
      effects := ?e5\<rparr>"
  let ?s6 = "?s5\<lparr>connectionState := DISCONNECTED, reconnectTimer := Some 2, timeouts := [2],
      nextHandle := 3,
      sockets := [?w0, \<lparr>readyState = WS_CLOSED, handlers = True, awaited_by = Scheduler,
                        settled = True\<rparr>],
      effects := ?e6\<rparr>"
  let ?s7 = "?s6\<lparr>rejections := 0, reconnectAttempts := 1, reconnectTimer := Some 3,
      timeouts := [2, 3], nextHandle := 4, effects := ?e7\<rparr>"
  let ?s8 = "?s7\<lparr>isDisconnected := True, reconnectTimer := None, timeouts := [2], socket := None,
      channelInfo := None, reconnectAttempts := 0,
      listeners := (\<lambda>ev. {}), emitter := (\<lambda>ev. []),
      sockets := [?w0, \<lparr>readyState = WS_CLOSED, handlers = False, awaited_by = Scheduler,
                        settled = True\<rparr>],
      effects := ?e8\<rparr>"
  let ?s9 = "?s8\<lparr>connectionState := CONNECTING, timeouts := [], lookups := [Scheduler],
      effects := ?e9\<rparr>"
  have 1: "step sampleParseJSON (Subscribe ''error'' (Listener 1 False)) ?c = ?s1"
    by (simp add: eval_defs)
  have 2: "step sampleParseJSON (SocketClose 0) ?s1 = ?s2" by (simp add: eval_defs)
  have 3: "step sampleParseJSON (ReconnectTimer 1) ?s2 = ?s3" by (simp add: eval_defs)
  have 4: "step sampleParseJSON (LookupDone 0 (LookupBody (Some 12345))) ?s3 = ?s4"
    by (simp add: eval_defs)
  have 5: "step sampleParseJSON (SocketError 1) ?s4 = ?s5" by (simp add: eval_defs)
  have 6: "step sampleParseJSON (SocketClose 1) ?s5 = ?s6" by (simp add: eval_defs)
  have 7: "step sampleParseJSON RejectionCaught ?s6 = ?s7" by (simp add: eval_defs)
  have 8: "step sampleParseJSON Disconnect ?s7 = ?s8" by (simp add: eval_defs)
  have 9: "step sampleParseJSON (ReconnectTimer 2) ?s8 = ?s9" by (simp add: eval_defs)
  have a: "run sampleParseJSON
      [SocketClose 0, ReconnectTimer 1, LookupDone 0 (LookupBody (Some 12345)), SocketError 1,
       SocketClose 1, RejectionCaught, Disconnect]
      (run sampleParseJSON [Subscribe ''error'' (Listener 1 False)] connectedClient) = ?s8"
    unfolding connected_client run_Cons run_Nil 1 2 3 4 5 6 7 8 ..
  have b: "run sampleParseJSON
      [SocketClose 0, ReconnectTimer 1, LookupDone 0 (LookupBody (Some 12345)), SocketError 1,
       SocketClose 1, RejectionCaught, Disconnect, ReconnectTimer 2]
      (run sampleParseJSON [Subscribe ''error'' (Listener 1 False)] connectedClient) = ?s9"
    unfolding connected_client run_Cons run_Nil 1 2 3 4 5 6 7 8 9 ..
  show ?thesis unfolding a b by (simp add: eval_defs)
qed


end
